theory Spec2Isabelle
  imports Main "HOL-Library.Word" "HOL-Library.AList"
begin

section \<open>Errors, pointers and the object store\<close>

text \<open>
  The error values of \<^verbatim>\<open>topology.go\<close>: the five package-level errors, the two
  anonymous \<^verbatim>\<open>errors.New\<close> values of \<^verbatim>\<open>getDatabase\<close> and \<^verbatim>\<open>NumSlices\<close>, and the
  ring's error for a lookup in an empty circle.
\<close>

datatype error =
    FrameDoesNotExistError
  | InvalidFrameError
  | SliceDoesNotExistError
  | FragmentDoesNotExistError
  | FrameSliceIntersectDoesNotExistError
  | DatabaseDoesNotExist
  | DatabaseIsEmpty
  | ErrEmptyCircle

text \<open>
  A Go pointer is \<^verbatim>\<open>nil\<close> or the address of an object. Objects of each struct type
  live in a store of their own, a list indexed by address; allocation appends, so a
  new address is different from every address in use. Dereferencing \<^verbatim>\<open>nil\<close> panics:
  \<open>deref\<close> returns \<open>None\<close>, and every function below that dereferences returns
  \<open>None\<close> for the panic.
\<close>

datatype ptr = Null | Ptr nat

definition deref :: "'a list \<Rightarrow> ptr \<Rightarrow> 'a option" where
  "deref objs p =
     (case p of
        Null \<Rightarrow> None
      | Ptr a \<Rightarrow> if a < length objs then Some (objs ! a) else None)"

definition new :: "'a list \<Rightarrow> 'a \<Rightarrow> ptr \<times> 'a list" where
  "new objs v = (Ptr (length objs), objs @ [v])"

definition store :: "'a list \<Rightarrow> ptr \<Rightarrow> 'a \<Rightarrow> 'a list" where
  "store objs p v = (case p of Null \<Rightarrow> objs | Ptr a \<Rightarrow> objs[a := v])"

section \<open>External collaborators\<close>

text \<open>
  Modelled from the spec: the packages \<^verbatim>\<open>pilosa/config\<close> and \<^verbatim>\<open>pilosa/util\<close> and the
  hash function of the ring are not under \<^verbatim>\<open>src/\<close>. They are parameters of the model,
  collected in one record: the configuration (key to string array), the codec between
  a fragment identifier and its hex string (\<^verbatim>\<open>util.SUUID_to_Hex\<close>,
  \<^verbatim>\<open>util.Hex_to_SUUID\<close>), and the ring's 32-bit hash of a key. The identifier types
  \<^verbatim>\<open>util.GUID\<close> and \<^verbatim>\<open>util.SUUID\<close> are opaque; the source only compares them, so they
  are natural numbers here.
\<close>

type_synonym GUID = nat
type_synonym SUUID = nat

record env =
  config :: "string \<rightharpoonup> string list"
  SUUID_to_Hex :: "SUUID \<Rightarrow> string"
  Hex_to_SUUID :: "string \<Rightarrow> SUUID"
  hashKey :: "string \<Rightarrow> 32 word"

text \<open>
  Modelled from the spec: \<^verbatim>\<open>config.GetStringArrayDefault(key, defaultValue)\<close> returns
  the configured array, or the default when the key is not configured.
\<close>

definition GetStringArrayDefault :: "env \<Rightarrow> string \<Rightarrow> string list \<Rightarrow> string list" where
  "GetStringArrayDefault e key defaultValue =
     (case config e key of None \<Rightarrow> defaultValue | Some v \<Rightarrow> v)"

text \<open>
  The decimal rendering of a non-negative integer, as \<^verbatim>\<open>strconv.Itoa\<close> and
  \<^verbatim>\<open>fmt.Sprintf("%d", _)\<close> of the Go standard library produce it.
\<close>

definition digit :: "nat \<Rightarrow> char" where
  "digit n = ''0123456789'' ! (n mod 10)"

fun decimal :: "nat \<Rightarrow> string" where
  "decimal n = (if n < 10 then [digit n] else decimal (n div 10) @ [digit n])"

declare decimal.simps [simp del]

section \<open>The consistent-hash ring\<close>

text \<open>
  Modelled from the spec: the ring is the third-party type \<^verbatim>\<open>consistent.Consistent\<close>,
  not under \<^verbatim>\<open>src/\<close>. Each member occupies \<^verbatim>\<open>NumberOfReplicas\<close> virtual positions
  on a circle of 32-bit hash values (the hash of the replica index followed by the
  member); a member set records the members; a lookup hashes the key and resolves to
  the member at the first position clockwise, wrapping to the smallest position. A
  lookup in an empty circle fails with \<open>ErrEmptyCircle\<close>. The list of positions
  is sorted after every addition, so the first position after the key is found by
  scanning the list from its start.
\<close>

record Consistent =
  circle :: "(32 word \<times> string) list"
  members :: "string set"
  sortedHashes :: "32 word list"
  NumberOfReplicas :: int
  count :: int

definition consistent_New :: Consistent where
  "consistent_New =
     \<lparr>circle = [], members = {}, sortedHashes = [], NumberOfReplicas = 20, count = 0\<rparr>"

definition eltKey :: "string \<Rightarrow> nat \<Rightarrow> string" where
  "eltKey elt idx = decimal idx @ elt"

definition consistent_Add :: "env \<Rightarrow> Consistent \<Rightarrow> string \<Rightarrow> Consistent" where
  "consistent_Add e c elt =
     (let circle' =
            fold (\<lambda>i circ. AList.update (hashKey e (eltKey elt i)) elt circ)
              [0 ..< nat (NumberOfReplicas c)] (circle c)
      in c\<lparr>circle := circle',
            members := insert elt (members c),
            sortedHashes := sort (map fst circle'),
            count := count c + 1\<rparr>)"

definition search :: "Consistent \<Rightarrow> 32 word \<Rightarrow> nat" where
  "search c key =
     (let i = length (takeWhile (\<lambda>x. \<not> key < x) (sortedHashes c))
      in if i \<ge> length (sortedHashes c) then 0 else i)"

definition consistent_Get :: "env \<Rightarrow> Consistent \<Rightarrow> string \<Rightarrow> (error + string) option" where
  "consistent_Get e c name =
     (if length (circle c) = 0 then Some (Inl ErrEmptyCircle)
      else
        let key = hashKey e name;
            i = search c key
        in if i < length (sortedHashes c)
           then (case map_of (circle c) (sortedHashes c ! i) of
                   None \<Rightarrow> Some (Inr [])
                 | Some m \<Rightarrow> Some (Inr m))
           else None)"

section \<open>The structs of the topology\<close>

text \<open>
  The mutexes are left out: the model is sequential. A \<^verbatim>\<open>*util.GUID\<close> is \<open>None\<close>
  for \<^verbatim>\<open>nil\<close> or the identifier it points to. The ring of a FrameSliceIntersect is
  owned by it alone and is held in the record.
\<close>

record Location =
  ProcessId :: "GUID option"
  FragmentId :: SUUID

record Process =
  Process_id :: "GUID option"
  host :: string
  port_tcp :: int
  port_http :: int

record Cluster =
  databases :: "(string \<rightharpoonup> ptr) option"

record Database =
  Name :: string
  frames :: "ptr list"
  slices :: "ptr list"
  frame_slice_intersects :: "ptr list"

record Frame =
  Frame_name :: string

record Slice =
  Slice_id :: int

record FrameSliceIntersect =
  fsi_frame :: ptr
  fsi_slice :: ptr
  fragments :: "ptr list"
  hashring :: Consistent

record Fragment =
  Fragment_id :: SUUID
  Fragment_process :: ptr

record Bitmap =
  Bitmap_Id :: "64 word"
  Bitmap_FrameType :: string
  Bitmap_Filter :: "64 word"

text \<open>What \<^verbatim>\<open>log.Println\<close> is given: strings, pointers, errors and numbers.\<close>

datatype logval = LStr string | LPtr ptr | LErr error | LNum "64 word"

record heap =
  cluster_objs :: "Cluster list"
  database_objs :: "Database list"
  frame_objs :: "Frame list"
  slice_objs :: "Slice list"
  fsi_objs :: "FrameSliceIntersect list"
  fragment_objs :: "Fragment list"
  process_objs :: "Process list"
  log_lines :: "logval list list"

definition Println :: "heap \<Rightarrow> logval list \<Rightarrow> heap" where
  "Println h vals = h\<lparr>log_lines := log_lines h @ [vals]\<rparr>"

section \<open>Process and Cluster\<close>

definition NewProcess :: "heap \<Rightarrow> GUID option \<Rightarrow> ptr \<times> heap" where
  "NewProcess h pid =
     (let (p, objs) =
            new (process_objs h)
              \<lparr>Process_id = pid, host = [], port_tcp = 0, port_http = 0\<rparr>
      in (p, h\<lparr>process_objs := objs\<rparr>))"

text \<open>
  The accessors of \<^verbatim>\<open>Process\<close>. \<^verbatim>\<open>Id\<close> dereferences the identifier pointer as well
  as the receiver.
\<close>

definition Id_of :: "heap \<Rightarrow> ptr \<Rightarrow> GUID option" where
  "Id_of h self =
     (case deref (process_objs h) self of None \<Rightarrow> None | Some pr \<Rightarrow> Process_id pr)"

definition Host :: "heap \<Rightarrow> ptr \<Rightarrow> string option" where
  "Host h self = map_option host (deref (process_objs h) self)"

definition SetHost :: "heap \<Rightarrow> ptr \<Rightarrow> string \<Rightarrow> heap option" where
  "SetHost h self v =
     (case deref (process_objs h) self of
        None \<Rightarrow> None
      | Some pr \<Rightarrow> Some (h\<lparr>process_objs := store (process_objs h) self (pr\<lparr>host := v\<rparr>)\<rparr>))"

definition PortTcp :: "heap \<Rightarrow> ptr \<Rightarrow> int option" where
  "PortTcp h self = map_option port_tcp (deref (process_objs h) self)"

definition SetPortTcp :: "heap \<Rightarrow> ptr \<Rightarrow> int \<Rightarrow> heap option" where
  "SetPortTcp h self port =
     (case deref (process_objs h) self of
        None \<Rightarrow> None
      | Some pr \<Rightarrow>
          Some (h\<lparr>process_objs := store (process_objs h) self (pr\<lparr>port_tcp := port\<rparr>)\<rparr>))"

definition PortHttp :: "heap \<Rightarrow> ptr \<Rightarrow> int option" where
  "PortHttp h self = map_option port_http (deref (process_objs h) self)"

definition SetPortHttp :: "heap \<Rightarrow> ptr \<Rightarrow> int \<Rightarrow> heap option" where
  "SetPortHttp h self port =
     (case deref (process_objs h) self of
        None \<Rightarrow> None
      | Some pr \<Rightarrow>
          Some (h\<lparr>process_objs := store (process_objs h) self (pr\<lparr>port_http := port\<rparr>)\<rparr>))"

definition NewCluster :: "heap \<Rightarrow> ptr \<times> heap" where
  "NewCluster h =
     (let (c, objs) = new (cluster_objs h) \<lparr>databases = Some Map.empty\<rparr>
      in (c, h\<lparr>cluster_objs := objs\<rparr>))"

definition GetDatabases :: "heap \<Rightarrow> ptr \<Rightarrow> (string \<rightharpoonup> ptr) option option" where
  "GetDatabases h self = map_option databases (deref (cluster_objs h) self)"

definition addDatabase :: "heap \<Rightarrow> ptr \<Rightarrow> string \<Rightarrow> (ptr \<times> heap) option" where
  "addDatabase h c name =
     (case deref (cluster_objs h) c of
        None \<Rightarrow> None
      | Some cl \<Rightarrow>
          let (database, objs) =
                new (database_objs h)
                  \<lparr>Name = name, frames = [], slices = [], frame_slice_intersects = []\<rparr>;
              m = (case databases cl of None \<Rightarrow> Map.empty | Some m \<Rightarrow> m)
          in Some (database,
                   h\<lparr>database_objs := objs,
                     cluster_objs :=
                       store (cluster_objs h) c (cl\<lparr>databases := Some (m(name \<mapsto> database))\<rparr>)\<rparr>))"

definition getDatabase :: "heap \<Rightarrow> ptr \<Rightarrow> string \<Rightarrow> (error + ptr) option" where
  "getDatabase h c name =
     (case deref (cluster_objs h) c of
        None \<Rightarrow> None
      | Some cl \<Rightarrow>
          (case databases cl of
             None \<Rightarrow> Some (Inl DatabaseDoesNotExist)
           | Some m \<Rightarrow>
               (case m name of
                  None \<Rightarrow> Some (Inl DatabaseDoesNotExist)
                | Some v \<Rightarrow> Some (Inr v))))"

definition GetOrCreateDatabase :: "heap \<Rightarrow> ptr \<Rightarrow> string \<Rightarrow> (ptr \<times> heap) option" where
  "GetOrCreateDatabase h c name =
     (case getDatabase h c name of
        None \<Rightarrow> None
      | Some (Inr database) \<Rightarrow> Some (database, h)
      | Some (Inl err) \<Rightarrow> addDatabase h c name)"

section \<open>Database: frames\<close>

fun stringInSlice :: "string \<Rightarrow> string list \<Rightarrow> bool" where
  "stringInSlice a [] = False"
| "stringInSlice a (b # list) = (if b = a then True else stringInSlice a list)"

definition IsValidFrame :: "env \<Rightarrow> string \<Rightarrow> bool" where
  "IsValidFrame e name =
     (let supported_frames = GetStringArrayDefault e ''supported_frames'' [''default'']
      in stringInSlice name supported_frames)"

definition NumSlices :: "heap \<Rightarrow> ptr \<Rightarrow> (error + int) option" where
  "NumSlices h d =
     (case deref (database_objs h) d of
        None \<Rightarrow> None
      | Some db \<Rightarrow>
          if length (slices db) < 1 then Some (Inl DatabaseIsEmpty)
          else Some (Inr (int (length (slices db)))))"

fun getFrame_loop :: "heap \<Rightarrow> ptr list \<Rightarrow> string \<Rightarrow> (error + ptr) option" where
  "getFrame_loop h [] name = Some (Inl FrameDoesNotExistError)"
| "getFrame_loop h (frame # rest) name =
     (case deref (frame_objs h) frame of
        None \<Rightarrow> None
      | Some fr \<Rightarrow>
          if Frame_name fr = name then Some (Inr frame) else getFrame_loop h rest name)"

definition getFrame :: "env \<Rightarrow> heap \<Rightarrow> ptr \<Rightarrow> string \<Rightarrow> (error + ptr) option" where
  "getFrame e h d name =
     (if \<not> IsValidFrame e name then Some (Inl InvalidFrameError)
      else
        (case deref (database_objs h) d of
           None \<Rightarrow> None
         | Some db \<Rightarrow> getFrame_loop h (frames db) name))"

section \<open>Database: frame-slice intersects\<close>

definition AddFrameSliceIntersect :: "heap \<Rightarrow> ptr \<Rightarrow> ptr \<Rightarrow> ptr \<Rightarrow> (ptr \<times> heap) option" where
  "AddFrameSliceIntersect h d frame slice' =
     (case deref (database_objs h) d of
        None \<Rightarrow> None
      | Some db \<Rightarrow>
          let (frameslice, objs) =
                new (fsi_objs h)
                  \<lparr>fsi_frame = frame, fsi_slice = slice', fragments = [],
                   hashring = consistent_New\<lparr>NumberOfReplicas := 16\<rparr>\<rparr>
          in Some (frameslice,
                   h\<lparr>fsi_objs := objs,
                     database_objs :=
                       store (database_objs h) d
                         (db\<lparr>frame_slice_intersects :=
                               frame_slice_intersects db @ [frameslice]\<rparr>)\<rparr>))"

fun GetFrameSliceIntersect_loop ::
  "heap \<Rightarrow> ptr list \<Rightarrow> ptr \<Rightarrow> ptr \<Rightarrow> (error + ptr) option" where
  "GetFrameSliceIntersect_loop h [] frame slice' =
     Some (Inl FrameSliceIntersectDoesNotExistError)"
| "GetFrameSliceIntersect_loop h (frameslice # rest) frame slice' =
     (case deref (fsi_objs h) frameslice of
        None \<Rightarrow> None
      | Some fs \<Rightarrow>
          if fsi_frame fs = frame \<and> fsi_slice fs = slice' then Some (Inr frameslice)
          else GetFrameSliceIntersect_loop h rest frame slice')"

definition GetFrameSliceIntersect ::
  "heap \<Rightarrow> ptr \<Rightarrow> ptr \<Rightarrow> ptr \<Rightarrow> ((error + ptr) \<times> heap) option" where
  "GetFrameSliceIntersect h d frame slice' =
     (case deref (database_objs h) d of
        None \<Rightarrow> None
      | Some db \<Rightarrow>
          (case GetFrameSliceIntersect_loop h (frame_slice_intersects db) frame slice' of
             None \<Rightarrow> None
           | Some (Inr frameslice) \<Rightarrow> Some (Inr frameslice, h)
           | Some (Inl err) \<Rightarrow>
               Some (Inl err,
                     Println h [LStr ''Missing FrameSliceIntersect:'', LStr (Name db),
                                LPtr frame, LPtr slice'])))"

definition GetFrameSliceIntersects :: "heap \<Rightarrow> ptr \<Rightarrow> ptr list option" where
  "GetFrameSliceIntersects h self =
     map_option frame_slice_intersects (deref (database_objs h) self)"

section \<open>Database: frames and slices, get or create\<close>

fun addFrame_loop :: "heap \<Rightarrow> ptr \<Rightarrow> ptr \<Rightarrow> ptr list \<Rightarrow> heap option" where
  "addFrame_loop h d frame [] = Some h"
| "addFrame_loop h d frame (slice' # rest) =
     (case AddFrameSliceIntersect h d frame slice' of
        None \<Rightarrow> None
      | Some (_, h') \<Rightarrow> addFrame_loop h' d frame rest)"

definition addFrame :: "heap \<Rightarrow> ptr \<Rightarrow> string \<Rightarrow> (ptr \<times> heap) option" where
  "addFrame h d name =
     (case deref (database_objs h) d of
        None \<Rightarrow> None
      | Some db \<Rightarrow>
          let (frame, objs) = new (frame_objs h) \<lparr>Frame_name = name\<rparr>;
              h1 = h\<lparr>frame_objs := objs,
                     database_objs :=
                       store (database_objs h) d (db\<lparr>frames := frames db @ [frame]\<rparr>)\<rparr>
          in (case addFrame_loop h1 d frame (slices db) of
                None \<Rightarrow> None
              | Some h2 \<Rightarrow> Some (frame, h2)))"

definition GetOrCreateFrame :: "env \<Rightarrow> heap \<Rightarrow> ptr \<Rightarrow> string \<Rightarrow> (ptr \<times> heap) option" where
  "GetOrCreateFrame e h d name =
     (case getFrame e h d name of
        None \<Rightarrow> None
      | Some (Inr frame) \<Rightarrow> Some (frame, h)
      | Some (Inl err) \<Rightarrow> addFrame h d name)"

definition Slice_Id :: "heap \<Rightarrow> ptr \<Rightarrow> int option" where
  "Slice_Id h self = map_option Slice_id (deref (slice_objs h) self)"

fun getSlice_loop :: "heap \<Rightarrow> ptr list \<Rightarrow> int \<Rightarrow> (error + ptr) option" where
  "getSlice_loop h [] slice_id = Some (Inl SliceDoesNotExistError)"
| "getSlice_loop h (slice' # rest) slice_id =
     (case deref (slice_objs h) slice' of
        None \<Rightarrow> None
      | Some sl \<Rightarrow>
          if Slice_id sl = slice_id then Some (Inr slice') else getSlice_loop h rest slice_id)"

definition getSlice :: "heap \<Rightarrow> ptr \<Rightarrow> int \<Rightarrow> (error + ptr) option" where
  "getSlice h d slice_id =
     (case deref (database_objs h) d of
        None \<Rightarrow> None
      | Some db \<Rightarrow> getSlice_loop h (slices db) slice_id)"

fun addSlice_loop :: "heap \<Rightarrow> ptr \<Rightarrow> ptr list \<Rightarrow> ptr \<Rightarrow> heap option" where
  "addSlice_loop h d [] slice' = Some h"
| "addSlice_loop h d (frame # rest) slice' =
     (case AddFrameSliceIntersect h d frame slice' of
        None \<Rightarrow> None
      | Some (_, h') \<Rightarrow> addSlice_loop h' d rest slice')"

definition addSlice :: "heap \<Rightarrow> ptr \<Rightarrow> int \<Rightarrow> (ptr \<times> heap) option" where
  "addSlice h d slice_id =
     (case deref (database_objs h) d of
        None \<Rightarrow> None
      | Some db \<Rightarrow>
          let (slice', objs) = new (slice_objs h) \<lparr>Slice_id = slice_id\<rparr>;
              h1 = h\<lparr>slice_objs := objs,
                     database_objs :=
                       store (database_objs h) d (db\<lparr>slices := slices db @ [slice']\<rparr>)\<rparr>
          in (case addSlice_loop h1 d (frames db) slice' of
                None \<Rightarrow> None
              | Some h2 \<Rightarrow> Some (slice', h2)))"

definition GetOrCreateSlice :: "heap \<Rightarrow> ptr \<Rightarrow> int \<Rightarrow> (ptr \<times> heap) option" where
  "GetOrCreateSlice h d slice_id =
     (case getSlice h d slice_id of
        None \<Rightarrow> None
      | Some (Inr slice') \<Rightarrow> Some (slice', h)
      | Some (Inl err) \<Rightarrow> addSlice h d slice_id)"

section \<open>Slice derivation\<close>

text \<open>
  Modelled from the spec: the constant \<^verbatim>\<open>SLICE_WIDTH\<close> is declared in another file of
  package \<^verbatim>\<open>db\<close>; the spec gives its value, 1048576.
\<close>

definition SLICE_WIDTH :: "64 word" where
  "SLICE_WIDTH = 1048576"

text \<open>
  \<^verbatim>\<open>func GetSlice(profile_id uint64) int\<close>: unsigned 64-bit division, then the
  conversion to \<^verbatim>\<open>int\<close> (64 bits, two's complement).
\<close>

definition GetSlice :: "64 word \<Rightarrow> int" where
  "GetSlice profile_id = sint (profile_id div SLICE_WIDTH)"

definition GetSliceForProfile :: "heap \<Rightarrow> ptr \<Rightarrow> 64 word \<Rightarrow> (error + ptr) option" where
  "GetSliceForProfile h d profile_id = getSlice h d (GetSlice profile_id)"

section \<open>FrameSliceIntersect and Fragment\<close>

definition GetFragments :: "heap \<Rightarrow> ptr \<Rightarrow> ptr list option" where
  "GetFragments h self = map_option fragments (deref (fsi_objs h) self)"

fun GetFragment_loop :: "heap \<Rightarrow> ptr list \<Rightarrow> SUUID \<Rightarrow> (error + ptr) option" where
  "GetFragment_loop h [] fragment_id = Some (Inl FragmentDoesNotExistError)"
| "GetFragment_loop h (fragment # rest) fragment_id =
     (case deref (fragment_objs h) fragment of
        None \<Rightarrow> None
      | Some fr \<Rightarrow>
          if Fragment_id fr = fragment_id then Some (Inr fragment)
          else GetFragment_loop h rest fragment_id)"

definition GetFragment :: "heap \<Rightarrow> ptr \<Rightarrow> SUUID \<Rightarrow> (error + ptr) option" where
  "GetFragment h self fragment_id =
     (case deref (fsi_objs h) self of
        None \<Rightarrow> None
      | Some fs \<Rightarrow> GetFragment_loop h (fragments fs) fragment_id)"

definition AddFragment :: "env \<Rightarrow> heap \<Rightarrow> ptr \<Rightarrow> ptr \<Rightarrow> heap option" where
  "AddFragment e h self fragment =
     (case deref (fsi_objs h) self of
        None \<Rightarrow> None
      | Some fs \<Rightarrow>
          (case deref (fragment_objs h) fragment of
             None \<Rightarrow> None
           | Some fr \<Rightarrow>
               Some (h\<lparr>fsi_objs :=
                         store (fsi_objs h) self
                           (fs\<lparr>fragments := fragments fs @ [fragment],
                               hashring :=
                                 consistent_Add e (hashring fs)
                                   (SUUID_to_Hex e (Fragment_id fr))\<rparr>)\<rparr>)))"

definition GetId :: "heap \<Rightarrow> ptr \<Rightarrow> SUUID option" where
  "GetId h self = map_option Fragment_id (deref (fragment_objs h) self)"

definition GetProcess :: "heap \<Rightarrow> ptr \<Rightarrow> ptr option" where
  "GetProcess h self = map_option Fragment_process (deref (fragment_objs h) self)"

definition GetProcessId :: "heap \<Rightarrow> ptr \<Rightarrow> GUID option option" where
  "GetProcessId h self =
     (case deref (fragment_objs h) self of
        None \<Rightarrow> None
      | Some fr \<Rightarrow>
          (case deref (process_objs h) (Fragment_process fr) of
             None \<Rightarrow> None
           | Some pr \<Rightarrow> Some (Process_id pr)))"

text \<open>
  \<^verbatim>\<open>GetLocation\<close> returns the address of a new \<^verbatim>\<open>Location\<close>; the model returns the
  value it holds.
\<close>

definition GetLocation :: "heap \<Rightarrow> ptr \<Rightarrow> Location option" where
  "GetLocation h self =
     (case deref (fragment_objs h) self of
        None \<Rightarrow> None
      | Some fr \<Rightarrow>
          (case deref (process_objs h) (Fragment_process fr) of
             None \<Rightarrow> None
           | Some pr \<Rightarrow> Some \<lparr>ProcessId = Process_id pr, FragmentId = Fragment_id fr\<rparr>))"

definition SetProcess :: "heap \<Rightarrow> ptr \<Rightarrow> ptr \<Rightarrow> heap option" where
  "SetProcess h f process =
     (case deref (fragment_objs h) f of
        None \<Rightarrow> None
      | Some fr \<Rightarrow>
          Some (h\<lparr>fragment_objs :=
                    store (fragment_objs h) f (fr\<lparr>Fragment_process := process\<rparr>)\<rparr>))"

section \<open>Database: fragments and routing\<close>

text \<open>
  The bitmap is passed by value: the caller's \<^verbatim>\<open>*Bitmap\<close> is only read.
\<close>

definition GetFragmentForBitmap ::
  "env \<Rightarrow> heap \<Rightarrow> ptr \<Rightarrow> ptr \<Rightarrow> Bitmap \<Rightarrow> ((error + ptr) \<times> heap) option" where
  "GetFragmentForBitmap e h d slice' bitmap =
     (case getFrame e h d (Bitmap_FrameType bitmap) of
        None \<Rightarrow> None
      | Some (Inl err) \<Rightarrow>
          (case deref (database_objs h) d of
             None \<Rightarrow> None
           | Some db \<Rightarrow>
               Some (Inl err,
                     Println
                       (Println h [LStr ''Missing FrameType'', LStr (Bitmap_FrameType bitmap),
                                   LStr (Name db), LPtr slice'])
                       [LErr err]))
      | Some (Inr frame) \<Rightarrow>
          (case GetFrameSliceIntersect h d frame slice' of
             None \<Rightarrow> None
           | Some (Inl err, h1) \<Rightarrow>
               Some (Inl err,
                     Println (Println h1 [LStr ''Missing frame,slice'', LPtr frame, LPtr slice'])
                       [LErr err])
           | Some (Inr fsi, h1) \<Rightarrow>
               (case deref (fsi_objs h1) fsi of
                  None \<Rightarrow> None
                | Some fs \<Rightarrow>
                    (case consistent_Get e (hashring fs)
                            (decimal (unat (Bitmap_Id bitmap))) of
                       None \<Rightarrow> None
                     | Some (Inl err) \<Rightarrow>
                         (case deref (database_objs h1) d of
                            None \<Rightarrow> None
                          | Some db \<Rightarrow>
                              Some (Inl err,
                                    Println
                                      (Println h1
                                         [LStr ''ERROR FSI.GET:'', LNum (Bitmap_Id bitmap),
                                          LStr (Bitmap_FrameType bitmap), LStr (Name db),
                                          LPtr frame, LPtr slice'])
                                      [LErr err]))
                     | Some (Inr frag_id_s) \<Rightarrow>
                         (let frag_id = Hex_to_SUUID e frag_id_s
                          in (case GetFragment h1 fsi frag_id of
                                None \<Rightarrow> None
                              | Some r \<Rightarrow> Some (r, h1)))))))"

definition GetFragmentForFrameSlice ::
  "env \<Rightarrow> heap \<Rightarrow> ptr \<Rightarrow> ptr \<Rightarrow> ptr \<Rightarrow> ((error + ptr) \<times> heap) option" where
  "GetFragmentForFrameSlice e h d frame slice' =
     (case GetFrameSliceIntersect h d frame slice' of
        None \<Rightarrow> None
      | Some (Inl err, h1) \<Rightarrow>
          Some (Inl err,
                Println (Println h1 [LStr ''Missing frame,slice'', LPtr frame, LPtr slice'])
                  [LErr err])
      | Some (Inr fsi, h1) \<Rightarrow>
          (case deref (fsi_objs h1) fsi of
             None \<Rightarrow> None
           | Some fs \<Rightarrow>
               (case consistent_Get e (hashring fs) ''0'' of
                  None \<Rightarrow> None
                | Some (Inl err) \<Rightarrow>
                    (case deref (database_objs h1) d of
                       None \<Rightarrow> None
                     | Some db \<Rightarrow>
                         Some (Inl err,
                               Println
                                 (Println h1
                                    [LStr ''ERROR FSI.GET:'', LStr (Name db), LPtr frame,
                                     LPtr slice'])
                                 [LErr err]))
                | Some (Inr frag_id_s) \<Rightarrow>
                    (let frag_id = Hex_to_SUUID e frag_id_s
                     in (case GetFragment h1 fsi frag_id of
                           None \<Rightarrow> None
                         | Some r \<Rightarrow> Some (r, h1))))))"

definition getFragment ::
  "heap \<Rightarrow> ptr \<Rightarrow> ptr \<Rightarrow> ptr \<Rightarrow> SUUID \<Rightarrow> ((error + ptr) \<times> heap) option" where
  "getFragment h d frame slice' fragment_id =
     (case GetFrameSliceIntersect h d frame slice' of
        None \<Rightarrow> None
      | Some (Inl err, h1) \<Rightarrow> Some (Inl err, Println h1 [LErr err])
      | Some (Inr fsi, h1) \<Rightarrow>
          (case GetFragment h1 fsi fragment_id of
             None \<Rightarrow> None
           | Some r \<Rightarrow> Some (r, h1)))"

text \<open>\<^verbatim>\<open>addFragment\<close> returns \<^verbatim>\<open>nil\<close> when the FrameSliceIntersect is missing.\<close>

definition addFragment ::
  "env \<Rightarrow> heap \<Rightarrow> ptr \<Rightarrow> ptr \<Rightarrow> ptr \<Rightarrow> SUUID \<Rightarrow> (ptr \<times> heap) option" where
  "addFragment e h d frame slice' fragment_id =
     (case GetFrameSliceIntersect h d frame slice' of
        None \<Rightarrow> None
      | Some (Inl err, h1) \<Rightarrow>
          Some (Null, Println h1 [LStr ''database.addFragment'', LErr err])
      | Some (Inr fsi, h1) \<Rightarrow>
          let (fragment, objs) =
                new (fragment_objs h1) \<lparr>Fragment_id = fragment_id, Fragment_process = Null\<rparr>;
              h2 = h1\<lparr>fragment_objs := objs\<rparr>
          in (case AddFragment e h2 fsi fragment of
                None \<Rightarrow> None
              | Some h3 \<Rightarrow> Some (fragment, h3)))"

definition GetOrCreateFragment ::
  "env \<Rightarrow> heap \<Rightarrow> ptr \<Rightarrow> ptr \<Rightarrow> ptr \<Rightarrow> SUUID \<Rightarrow> (ptr \<times> heap) option" where
  "GetOrCreateFragment e h d frame slice' fragment_id =
     (case getFragment h d frame slice' fragment_id of
        None \<Rightarrow> None
      | Some (Inr fragment, h1) \<Rightarrow> Some (fragment, h1)
      | Some (Inl err, h1) \<Rightarrow> addFragment e h1 d frame slice' fragment_id)"

section \<open>Notions used in the statements\<close>

text \<open>
  The FrameSliceIntersect that \<open>AddFrameSliceIntersect\<close> allocates, and the addresses
  that \<open>n\<close> successive allocations return, starting at address \<open>a\<close>.
\<close>

definition new_fsi :: "ptr \<Rightarrow> ptr \<Rightarrow> FrameSliceIntersect" where
  "new_fsi frame slice' =
     \<lparr>fsi_frame = frame, fsi_slice = slice', fragments = [],
      hashring = consistent_New\<lparr>NumberOfReplicas := 16\<rparr>\<rparr>"

definition fresh_ptrs :: "nat \<Rightarrow> nat \<Rightarrow> ptr list" where
  "fresh_ptrs a n = map Ptr [a ..< a + n]"

text \<open>
  Two heaps hold the same objects when they differ at most in the log. The names of
  the frames of a database, in the order of its frame list.
\<close>

definition same_objects :: "heap \<Rightarrow> heap \<Rightarrow> bool" where
  "same_objects h h' =
     (cluster_objs h' = cluster_objs h \<and> database_objs h' = database_objs h
      \<and> frame_objs h' = frame_objs h \<and> slice_objs h' = slice_objs h
      \<and> fsi_objs h' = fsi_objs h \<and> fragment_objs h' = fragment_objs h
      \<and> process_objs h' = process_objs h)"

definition frame_names :: "heap \<Rightarrow> Database \<Rightarrow> string option list" where
  "frame_names h db = map (\<lambda>f. map_option Frame_name (deref (frame_objs h) f)) (frames db)"

text \<open>
  A sequence of \<open>AddFragment\<close> calls on one FrameSliceIntersect, and the hex string
  under which a fragment is entered in the ring.
\<close>

fun AddFragment_seq :: "env \<Rightarrow> heap \<Rightarrow> ptr \<Rightarrow> ptr list \<Rightarrow> heap option" where
  "AddFragment_seq e h self [] = Some h"
| "AddFragment_seq e h self (fragment # rest) =
     (case AddFragment e h self fragment of
        None \<Rightarrow> None
      | Some h' \<Rightarrow> AddFragment_seq e h' self rest)"

definition hex_id :: "env \<Rightarrow> heap \<Rightarrow> ptr \<Rightarrow> string option" where
  "hex_id e h fragment =
     map_option (\<lambda>fr. SUUID_to_Hex e (Fragment_id fr)) (deref (fragment_objs h) fragment)"

text \<open>
  A sequence of \<open>GetOrCreateFrame\<close> and \<open>GetOrCreateSlice\<close> calls on one database;
  a call that panics ends the run.
\<close>

datatype call = CallGetOrCreateFrame string | CallGetOrCreateSlice int

fun run_calls :: "env \<Rightarrow> heap \<Rightarrow> ptr \<Rightarrow> call list \<Rightarrow> heap option" where
  "run_calls e h d [] = Some h"
| "run_calls e h d (CallGetOrCreateFrame name # rest) =
     (case GetOrCreateFrame e h d name of
        None \<Rightarrow> None
      | Some (_, h') \<Rightarrow> run_calls e h' d rest)"
| "run_calls e h d (CallGetOrCreateSlice slice_id # rest) =
     (case GetOrCreateSlice h d slice_id of
        None \<Rightarrow> None
      | Some (_, h') \<Rightarrow> run_calls e h' d rest)"

text \<open>
  The pair of pointers (frame, slice) that a FrameSliceIntersect holds. The
  cross-product property of a database: for every frame and slice in its lists,
  \<open>GetFrameSliceIntersect\<close> returns an intersect, and exactly one entry of the
  intersect list holds that pair. The invariant \<open>db_inv\<close> is what the proof carries
  through the calls: the frame and slice lists have no duplicates and point to
  objects, and the pairs held by the intersect list are pairwise different and are
  exactly the pairs of a frame and a slice of the database.
\<close>

definition fsi_key :: "heap \<Rightarrow> ptr \<Rightarrow> (ptr \<times> ptr) option" where
  "fsi_key h p = map_option (\<lambda>fs. (fsi_frame fs, fsi_slice fs)) (deref (fsi_objs h) p)"

definition cross_product :: "heap \<Rightarrow> ptr \<Rightarrow> bool" where
  "cross_product h d =
     (case deref (database_objs h) d of
        None \<Rightarrow> False
      | Some db \<Rightarrow>
          (\<forall>f \<in> set (frames db). \<forall>s \<in> set (slices db).
             (\<exists>fsi. GetFrameSliceIntersect h d f s = Some (Inr fsi, h))
           \<and> length (filter (\<lambda>p. fsi_key h p = Some (f, s)) (frame_slice_intersects db)) = 1))"

definition db_inv :: "heap \<Rightarrow> ptr \<Rightarrow> bool" where
  "db_inv h d =
     (\<exists>db. deref (database_objs h) d = Some db
        \<and> distinct (frames db) \<and> distinct (slices db)
        \<and> (\<forall>f \<in> set (frames db). deref (frame_objs h) f \<noteq> None)
        \<and> (\<forall>s \<in> set (slices db). deref (slice_objs h) s \<noteq> None)
        \<and> distinct (map (fsi_key h) (frame_slice_intersects db))
        \<and> set (map (fsi_key h) (frame_slice_intersects db))
            = Some ` (set (frames db) \<times> set (slices db)))"

section \<open>A concrete instance\<close>

text \<open>
  An instance of the external collaborators, on which the operations can be run:
  nothing is configured (so the allow-list is the default), the codec writes an
  identifier in hexadecimal, and the hash of a key is computed from its length. The
  heap holds one cluster with one database, which has the frame \<^verbatim>\<open>default\<close>, the
  slice 0 and their intersect, and one process.
\<close>

definition hex_digit :: "nat \<Rightarrow> char" where
  "hex_digit n = ''0123456789abcdef'' ! (n mod 16)"

fun to_hex :: "nat \<Rightarrow> string" where
  "to_hex n = (if n < 16 then [hex_digit n] else to_hex (n div 16) @ [hex_digit n])"

declare to_hex.simps [simp del]

definition hex_value :: "char \<Rightarrow> nat" where
  "hex_value c = length (takeWhile (\<lambda>x. x \<noteq> c) ''0123456789abcdef'')"

definition from_hex :: "string \<Rightarrow> nat" where
  "from_hex s = foldl (\<lambda>acc c. 16 * acc + hex_value c) 0 s"

definition example_env :: env where
  "example_env =
     \<lparr>config = Map.empty, SUUID_to_Hex = to_hex, Hex_to_SUUID = from_hex,
      hashKey = (\<lambda>s. word_of_nat (length s * 7 + 3))\<rparr>"

definition empty_heap :: heap where
  "empty_heap =
     \<lparr>cluster_objs = [], database_objs = [], frame_objs = [], slice_objs = [],
      fsi_objs = [], fragment_objs = [], process_objs = [], log_lines = []\<rparr>"

definition example_heap :: heap where
  "example_heap =
     \<lparr>cluster_objs = [\<lparr>databases = Some [''db'' \<mapsto> Ptr 0]\<rparr>],
      database_objs = [\<lparr>Name = ''db'', frames = [Ptr 0], slices = [Ptr 0],
                        frame_slice_intersects = [Ptr 0]\<rparr>],
      frame_objs = [\<lparr>Frame_name = ''default''\<rparr>],
      slice_objs = [\<lparr>Slice_id = 0\<rparr>],
      fsi_objs = [new_fsi (Ptr 0) (Ptr 0)],
      fragment_objs = [],
      process_objs = [\<lparr>Process_id = Some 1, host = ''node'', port_tcp = 1, port_http = 2\<rparr>],
      log_lines = []\<rparr>"

section \<open>Properties\<close>

subsection \<open>The object store\<close>

lemma deref_Null [simp]: "deref objs Null = None"
  by (simp add: deref_def)

lemma deref_Ptr: "deref objs (Ptr a) = (if a < length objs then Some (objs ! a) else None)"
  by (simp add: deref_def)

lemma deref_fresh [simp]: "deref objs (Ptr (length objs)) = None"
  by (simp add: deref_def)

lemma deref_append_new [simp]: "deref (objs @ [v]) (Ptr (length objs)) = Some v"
  by (simp add: deref_def)

lemma deref_append_old: "deref objs p = Some x \<Longrightarrow> deref (objs @ ys) p = Some x"
  by (auto simp: deref_def nth_append split: ptr.splits if_splits)

lemma deref_store_same: "deref objs p = Some x \<Longrightarrow> deref (store objs p v) p = Some v"
  by (auto simp: deref_def store_def split: ptr.splits if_splits)

lemma deref_store_other: "q \<noteq> p \<Longrightarrow> deref (store objs p v) q = deref objs q"
  by (cases p; cases q) (auto simp: deref_def store_def)

lemma store_store [simp]: "store (store objs p v) p w = store objs p w"
  by (simp add: store_def split: ptr.splits)

lemma length_store [simp]: "length (store objs p v) = length objs"
  by (simp add: store_def split: ptr.splits)

lemma fresh_ptrs_0 [simp]: "fresh_ptrs a 0 = []"
  by (simp add: fresh_ptrs_def)

lemma fresh_ptrs_Suc: "fresh_ptrs a (Suc n) = Ptr a # fresh_ptrs (Suc a) n"
  by (simp add: fresh_ptrs_def upt_rec)

lemma store_same: "deref objs p = Some x \<Longrightarrow> store objs p x = objs"
  by (auto simp: deref_def store_def split: ptr.splits if_splits)

lemma AddFrameSliceIntersect_eq:
  "deref (database_objs h) d = Some db \<Longrightarrow>
   AddFrameSliceIntersect h d frame slice' =
     Some (Ptr (length (fsi_objs h)),
           h\<lparr>fsi_objs := fsi_objs h @ [new_fsi frame slice'],
             database_objs := store (database_objs h) d
               (db\<lparr>frame_slice_intersects := frame_slice_intersects db @ [Ptr (length (fsi_objs h))]\<rparr>)\<rparr>)"
  by (simp add: AddFrameSliceIntersect_def new_def new_fsi_def)

lemma addFrame_loop_eq:
  "deref (database_objs h) d = Some db \<Longrightarrow>
   addFrame_loop h d frame ss =
     Some (h\<lparr>fsi_objs := fsi_objs h @ map (new_fsi frame) ss,
             database_objs := store (database_objs h) d
               (db\<lparr>frame_slice_intersects := frame_slice_intersects db
                    @ fresh_ptrs (length (fsi_objs h)) (length ss)\<rparr>)\<rparr>)"
proof (induction ss arbitrary: h db)
  case Nil
  then show ?case by (simp add: store_same)
next
  case (Cons s ss)
  let ?db1 = "db\<lparr>frame_slice_intersects := frame_slice_intersects db @ [Ptr (length (fsi_objs h))]\<rparr>"
  let ?h1 = "h\<lparr>fsi_objs := fsi_objs h @ [new_fsi frame s],
             database_objs := store (database_objs h) d ?db1\<rparr>"
  have d1: "deref (database_objs ?h1) d = Some ?db1"
    using Cons.prems by (simp add: deref_store_same)
  show ?case
    using Cons.prems
    by (simp add: AddFrameSliceIntersect_eq Cons.IH [OF d1] fresh_ptrs_Suc)
qed

lemma addSlice_loop_eq:
  "deref (database_objs h) d = Some db \<Longrightarrow>
   addSlice_loop h d fs slice' =
     Some (h\<lparr>fsi_objs := fsi_objs h @ map (\<lambda>f. new_fsi f slice') fs,
             database_objs := store (database_objs h) d
               (db\<lparr>frame_slice_intersects := frame_slice_intersects db
                    @ fresh_ptrs (length (fsi_objs h)) (length fs)\<rparr>)\<rparr>)"
proof (induction fs arbitrary: h db)
  case Nil
  then show ?case by (simp add: store_same)
next
  case (Cons f fs)
  let ?db1 = "db\<lparr>frame_slice_intersects := frame_slice_intersects db @ [Ptr (length (fsi_objs h))]\<rparr>"
  let ?h1 = "h\<lparr>fsi_objs := fsi_objs h @ [new_fsi f slice'],
             database_objs := store (database_objs h) d ?db1\<rparr>"
  have d1: "deref (database_objs ?h1) d = Some ?db1"
    using Cons.prems by (simp add: deref_store_same)
  show ?case
    using Cons.prems
    by (simp add: AddFrameSliceIntersect_eq Cons.IH [OF d1] fresh_ptrs_Suc)
qed

lemma addFrame_eq:
  "deref (database_objs h) d = Some db \<Longrightarrow>
   addFrame h d name =
     Some (Ptr (length (frame_objs h)),
           h\<lparr>frame_objs := frame_objs h @ [\<lparr>Frame_name = name\<rparr>],
             fsi_objs := fsi_objs h @ map (new_fsi (Ptr (length (frame_objs h)))) (slices db),
             database_objs := store (database_objs h) d
               (db\<lparr>frames := frames db @ [Ptr (length (frame_objs h))],
                   frame_slice_intersects := frame_slice_intersects db
                    @ fresh_ptrs (length (fsi_objs h)) (length (slices db))\<rparr>)\<rparr>)"
proof -
  assume d: "deref (database_objs h) d = Some db"
  let ?f = "Ptr (length (frame_objs h))"
  let ?db1 = "db\<lparr>frames := frames db @ [?f]\<rparr>"
  let ?h1 = "h\<lparr>frame_objs := frame_objs h @ [\<lparr>Frame_name = name\<rparr>],
               database_objs := store (database_objs h) d ?db1\<rparr>"
  have d1: "deref (database_objs ?h1) d = Some ?db1"
    using d by (simp add: deref_store_same)
  show ?thesis
    using d by (simp add: addFrame_def new_def addFrame_loop_eq [OF d1])
qed

lemma addSlice_eq:
  "deref (database_objs h) d = Some db \<Longrightarrow>
   addSlice h d slice_id =
     Some (Ptr (length (slice_objs h)),
           h\<lparr>slice_objs := slice_objs h @ [\<lparr>Slice_id = slice_id\<rparr>],
             fsi_objs := fsi_objs h @ map (\<lambda>f. new_fsi f (Ptr (length (slice_objs h)))) (frames db),
             database_objs := store (database_objs h) d
               (db\<lparr>slices := slices db @ [Ptr (length (slice_objs h))],
                   frame_slice_intersects := frame_slice_intersects db
                    @ fresh_ptrs (length (fsi_objs h)) (length (frames db))\<rparr>)\<rparr>)"
proof -
  assume d: "deref (database_objs h) d = Some db"
  let ?s = "Ptr (length (slice_objs h))"
  let ?db1 = "db\<lparr>slices := slices db @ [?s]\<rparr>"
  let ?h1 = "h\<lparr>slice_objs := slice_objs h @ [\<lparr>Slice_id = slice_id\<rparr>],
               database_objs := store (database_objs h) d ?db1\<rparr>"
  have d1: "deref (database_objs ?h1) d = Some ?db1"
    using d by (simp add: deref_store_same)
  show ?thesis
    using d by (simp add: addSlice_def new_def addSlice_loop_eq [OF d1])
qed

subsection \<open>The cluster registry\<close>

lemma getDatabase_cases:
  "deref (cluster_objs h) c = Some cl \<Longrightarrow>
   getDatabase h c name =
     (case (case databases cl of None \<Rightarrow> None | Some m \<Rightarrow> m name) of
        None \<Rightarrow> Some (Inl DatabaseDoesNotExist) | Some v \<Rightarrow> Some (Inr v))"
  by (simp add: getDatabase_def split: option.splits)

text \<open>
  Claim C7. On a cluster, \<open>GetOrCreateDatabase\<close> with a name that is registered
  returns the registered database and changes nothing; with a name that is not
  registered it allocates a new, empty database (at an address not in use, leaving
  the existing databases as they are) and registers it under the name. In both cases
  the name is registered to the returned database afterwards, the registration of no
  other name changes (so the registry gains at most one entry), and a second call
  with the same name returns the same database and changes nothing.
\<close>

theorem GetOrCreateDatabase_get_or_create:
  assumes c: "deref (cluster_objs h) c = Some cl"
  shows "\<exists>database h'.
           GetOrCreateDatabase h c name = Some (database, h')
         \<and> (\<forall>p. getDatabase h c name = Some (Inr p) \<longrightarrow> database = p \<and> h' = h)
         \<and> (getDatabase h c name = Some (Inl DatabaseDoesNotExist) \<longrightarrow>
              deref (database_objs h) database = None
            \<and> deref (database_objs h') database =
                Some \<lparr>Name = name, frames = [], slices = [], frame_slice_intersects = []\<rparr>
            \<and> (\<forall>q x. deref (database_objs h) q = Some x \<longrightarrow> deref (database_objs h') q = Some x))
         \<and> getDatabase h' c name = Some (Inr database)
         \<and> (\<forall>n. n \<noteq> name \<longrightarrow> getDatabase h' c n = getDatabase h c n)
         \<and> GetOrCreateDatabase h' c name = Some (database, h')"
proof (cases "getDatabase h c name")
  case None
  with c show ?thesis by (simp add: getDatabase_cases split: option.splits)
next
  case (Some r)
  show ?thesis
  proof (cases r)
    case (Inr p)
    with Some show ?thesis
      by (simp add: GetOrCreateDatabase_def)
  next
    case (Inl err)
    have err: "err = DatabaseDoesNotExist"
      using Some Inl c by (auto simp: getDatabase_cases split: option.splits)
    let ?p = "Ptr (length (database_objs h))"
    let ?m = "case databases cl of None \<Rightarrow> Map.empty | Some m \<Rightarrow> m"
    let ?cl = "cl\<lparr>databases := Some (?m(name \<mapsto> ?p))\<rparr>"
    let ?h = "h\<lparr>database_objs := database_objs h @ [\<lparr>Name = name, frames = [], slices = [], frame_slice_intersects = []\<rparr>],
                cluster_objs := store (cluster_objs h) c ?cl\<rparr>"
    have add: "addDatabase h c name = Some (?p, ?h)"
      using c by (simp add: addDatabase_def new_def)
    have c': "deref (cluster_objs ?h) c = Some ?cl"
      using c by (simp add: deref_store_same)
    have g: "GetOrCreateDatabase h c name = Some (?p, ?h)"
      using Some Inl add by (simp add: GetOrCreateDatabase_def)
    have g1: "getDatabase ?h c name = Some (Inr ?p)"
      by (simp add: getDatabase_cases [OF c'])
    have g2: "\<forall>n. n \<noteq> name \<longrightarrow> getDatabase ?h c n = getDatabase h c n"
      by (simp add: getDatabase_cases [OF c'] getDatabase_cases [OF c] split: option.splits)
    have g3: "GetOrCreateDatabase ?h c name = Some (?p, ?h)"
      using g1 by (simp add: GetOrCreateDatabase_def)
    have old: "\<forall>q x. deref (database_objs h) q = Some x \<longrightarrow> deref (database_objs ?h) q = Some x"
      by (simp add: deref_append_old)
    show ?thesis
      using g g1 g2 g3 old Some Inl by simp
  qed
qed

theorem GetOrCreateDatabase_get_or_create_witness:
  "GetOrCreateDatabase example_heap (Ptr 0) ''db'' = Some (Ptr 0, example_heap)
   \<and> (\<exists>database h'.
          GetOrCreateDatabase example_heap (Ptr 0) ''other'' = Some (database, h')
        \<and> deref (database_objs example_heap) database = None
        \<and> deref (database_objs h') database =
            Some \<lparr>Name = ''other'', frames = [], slices = [], frame_slice_intersects = []\<rparr>
        \<and> GetOrCreateDatabase h' (Ptr 0) ''other'' = Some (database, h'))"
proof -
  have c: "deref (cluster_objs example_heap) (Ptr 0) = Some \<lparr>databases = Some [''db'' \<mapsto> Ptr 0]\<rparr>"
    by (simp add: example_heap_def deref_def)
  have g1: "getDatabase example_heap (Ptr 0) ''db'' = Some (Inr (Ptr 0))"
    by (simp add: getDatabase_cases [OF c])
  have g2: "getDatabase example_heap (Ptr 0) ''other'' = Some (Inl DatabaseDoesNotExist)"
    by (simp add: getDatabase_cases [OF c])
  from GetOrCreateDatabase_get_or_create [OF c, of "''db''"] g1
  have "GetOrCreateDatabase example_heap (Ptr 0) ''db'' = Some (Ptr 0, example_heap)"
    by auto
  moreover from GetOrCreateDatabase_get_or_create [OF c, of "''other''"] g2
  have "\<exists>database h'.
          GetOrCreateDatabase example_heap (Ptr 0) ''other'' = Some (database, h')
        \<and> deref (database_objs example_heap) database = None
        \<and> deref (database_objs h') database =
            Some \<lparr>Name = ''other'', frames = [], slices = [], frame_slice_intersects = []\<rparr>
        \<and> GetOrCreateDatabase h' (Ptr 0) ''other'' = Some (database, h')"
    by auto
  ultimately show ?thesis by blast
qed

subsection \<open>The cross-product invariant\<close>

lemma getFrame_loop_total:
  "\<forall>f \<in> set fs. deref (frame_objs h) f \<noteq> None \<Longrightarrow> \<exists>r. getFrame_loop h fs name = Some r"
  by (induction fs) auto

lemma getSlice_loop_total:
  "\<forall>s \<in> set ss. deref (slice_objs h) s \<noteq> None \<Longrightarrow> \<exists>r. getSlice_loop h ss i = Some r"
  by (induction ss) auto

lemma GetFrameSliceIntersect_loop_finds:
  "\<forall>p \<in> set ps. fsi_key h p \<noteq> None \<Longrightarrow> Some (f, s) \<in> fsi_key h ` set ps \<Longrightarrow>
   \<exists>p. GetFrameSliceIntersect_loop h ps f s = Some (Inr p)"
  by (induction ps) (auto simp: fsi_key_def)

lemma count_distinct_map:
  "distinct (map g xs) \<Longrightarrow> y \<in> g ` set xs \<Longrightarrow> length (filter (\<lambda>x. g x = y) xs) = 1"
proof (induction xs)
  case Nil
  then show ?case by simp
next
  case (Cons x xs)
  show ?case
  proof (cases "g x = y")
    case True
    with Cons.prems have "\<forall>z \<in> set xs. g z \<noteq> y"
      by (auto simp: image_iff)
    then have "filter (\<lambda>x. g x = y) xs = []"
      by (simp add: filter_empty_conv)
    with True show ?thesis by simp
  next
    case False
    with Cons show ?thesis by auto
  qed
qed

lemma db_inv_cross_product:
  assumes "db_inv h d"
  shows "cross_product h d"
proof -
  from assms obtain db where db: "deref (database_objs h) d = Some db"
    and dk: "distinct (map (fsi_key h) (frame_slice_intersects db))"
    and sk: "set (map (fsi_key h) (frame_slice_intersects db))
            = Some ` (set (frames db) \<times> set (slices db))"
    unfolding db_inv_def by blast
  have valid: "\<forall>p \<in> set (frame_slice_intersects db). fsi_key h p \<noteq> None"
    using sk by (metis (no_types, lifting) image_iff list.set_map option.distinct(1))
  {
    fix f s
    assume "f \<in> set (frames db)" "s \<in> set (slices db)"
    then have m: "Some (f, s) \<in> fsi_key h ` set (frame_slice_intersects db)"
      using sk by auto
    from GetFrameSliceIntersect_loop_finds [OF valid m]
    obtain p where "GetFrameSliceIntersect_loop h (frame_slice_intersects db) f s = Some (Inr p)"
      by blast
    then have "\<exists>fsi. GetFrameSliceIntersect h d f s = Some (Inr fsi, h)"
      by (simp add: GetFrameSliceIntersect_def db)
    moreover have "length (filter (\<lambda>p. fsi_key h p = Some (f, s)) (frame_slice_intersects db)) = 1"
      by (rule count_distinct_map [OF dk m])
    ultimately have "(\<exists>fsi. GetFrameSliceIntersect h d f s = Some (Inr fsi, h))
      \<and> length (filter (\<lambda>p. fsi_key h p = Some (f, s)) (frame_slice_intersects db)) = 1"
      by blast
  }
  then show ?thesis
    by (simp add: cross_product_def db)
qed

lemma fsi_key_fresh_ptrs:
  "fsi_objs h' = objs @ ys \<Longrightarrow>
   map (fsi_key h') (fresh_ptrs (length objs) (length ys))
     = map (\<lambda>fs. Some (fsi_frame fs, fsi_slice fs)) ys"
  by (rule nth_equalityI) (simp_all add: fresh_ptrs_def fsi_key_def deref_def nth_append)

lemma fsi_key_append_old:
  "fsi_key h p \<noteq> None \<Longrightarrow> fsi_objs h' = fsi_objs h @ ys \<Longrightarrow> fsi_key h' p = fsi_key h p"
  by (auto simp: fsi_key_def deref_append_old)

lemma addFrame_db_inv:
  assumes inv: "db_inv h d" and add: "addFrame h d name = Some (f, h1)"
  shows "db_inv h1 d"
proof -
  from inv obtain db where db: "deref (database_objs h) d = Some db"
    and df: "distinct (frames db)" and ds: "distinct (slices db)"
    and vf: "\<forall>f \<in> set (frames db). deref (frame_objs h) f \<noteq> None"
    and vs: "\<forall>s \<in> set (slices db). deref (slice_objs h) s \<noteq> None"
    and dk: "distinct (map (fsi_key h) (frame_slice_intersects db))"
    and sk: "set (map (fsi_key h) (frame_slice_intersects db))
            = Some ` (set (frames db) \<times> set (slices db))"
    unfolding db_inv_def by blast
  define f0 where "f0 = Ptr (length (frame_objs h))"
  define db1 where
    "db1 = db\<lparr>frames := frames db @ [f0],
              frame_slice_intersects := frame_slice_intersects db
                @ fresh_ptrs (length (fsi_objs h)) (length (slices db))\<rparr>"
  have h1: "h1 = h\<lparr>frame_objs := frame_objs h @ [\<lparr>Frame_name = name\<rparr>],
                   fsi_objs := fsi_objs h @ map (new_fsi f0) (slices db),
                   database_objs := store (database_objs h) d db1\<rparr>"
    using add by (auto simp: addFrame_eq [OF db] f0_def db1_def)
  have d1: "deref (database_objs h1) d = Some db1"
    using db by (simp add: h1 deref_store_same)
  have fresh: "f0 \<notin> set (frames db)"
    using vf by (auto simp: f0_def)
  have valid: "\<forall>p \<in> set (frame_slice_intersects db). fsi_key h p \<noteq> None"
    using sk by (metis (no_types, lifting) image_iff list.set_map option.distinct(1))
  have fo: "fsi_objs h1 = fsi_objs h @ map (new_fsi f0) (slices db)"
    by (simp add: h1)
  have old: "map (fsi_key h1) (frame_slice_intersects db)
             = map (fsi_key h) (frame_slice_intersects db)"
    using valid by (simp add: fsi_key_append_old [OF _ fo])
  have new: "map (fsi_key h1) (fresh_ptrs (length (fsi_objs h)) (length (slices db)))
             = map (\<lambda>s. Some (f0, s)) (slices db)"
    using fsi_key_fresh_ptrs [OF fo] by (simp add: new_fsi_def comp_def)
  have keys: "map (fsi_key h1) (frame_slice_intersects db1)
              = map (fsi_key h) (frame_slice_intersects db) @ map (\<lambda>s. Some (f0, s)) (slices db)"
    by (simp add: db1_def old new)
  have dn: "distinct (map (\<lambda>s. Some (f0, s)) (slices db))"
    using ds by (simp add: distinct_map inj_on_def)
  have disj: "set (map (fsi_key h) (frame_slice_intersects db))
              \<inter> set (map (\<lambda>s. Some (f0, s)) (slices db)) = {}"
    unfolding sk using fresh by auto
  have k1: "distinct (map (fsi_key h1) (frame_slice_intersects db1))"
    unfolding keys using dk dn disj by simp
  have k2: "set (map (fsi_key h1) (frame_slice_intersects db1))
            = Some ` (set (frames db1) \<times> set (slices db1))"
    unfolding keys set_append sk by (auto simp: db1_def)
  have f1: "distinct (frames db1)"
    using df fresh by (simp add: db1_def)
  have s1: "distinct (slices db1)"
    using ds by (simp add: db1_def)
  have vf1: "\<forall>f \<in> set (frames db1). deref (frame_objs h1) f \<noteq> None"
    using vf by (auto simp: db1_def h1 f0_def deref_append_old)
  have vs1: "\<forall>s \<in> set (slices db1). deref (slice_objs h1) s \<noteq> None"
    using vs by (simp add: db1_def h1)
  show ?thesis
    unfolding db_inv_def using d1 f1 s1 vf1 vs1 k1 k2 by blast
qed

lemma addSlice_db_inv:
  assumes inv: "db_inv h d" and add: "addSlice h d slice_id = Some (s, h1)"
  shows "db_inv h1 d"
proof -
  from inv obtain db where db: "deref (database_objs h) d = Some db"
    and df: "distinct (frames db)" and ds: "distinct (slices db)"
    and vf: "\<forall>f \<in> set (frames db). deref (frame_objs h) f \<noteq> None"
    and vs: "\<forall>s \<in> set (slices db). deref (slice_objs h) s \<noteq> None"
    and dk: "distinct (map (fsi_key h) (frame_slice_intersects db))"
    and sk: "set (map (fsi_key h) (frame_slice_intersects db))
            = Some ` (set (frames db) \<times> set (slices db))"
    unfolding db_inv_def by blast
  define s0 where "s0 = Ptr (length (slice_objs h))"
  define db1 where
    "db1 = db\<lparr>slices := slices db @ [s0],
              frame_slice_intersects := frame_slice_intersects db
                @ fresh_ptrs (length (fsi_objs h)) (length (frames db))\<rparr>"
  have h1: "h1 = h\<lparr>slice_objs := slice_objs h @ [\<lparr>Slice_id = slice_id\<rparr>],
                   fsi_objs := fsi_objs h @ map (\<lambda>f. new_fsi f s0) (frames db),
                   database_objs := store (database_objs h) d db1\<rparr>"
    using add by (auto simp: addSlice_eq [OF db] s0_def db1_def)
  have d1: "deref (database_objs h1) d = Some db1"
    using db by (simp add: h1 deref_store_same)
  have fresh: "s0 \<notin> set (slices db)"
    using vs by (auto simp: s0_def)
  have valid: "\<forall>p \<in> set (frame_slice_intersects db). fsi_key h p \<noteq> None"
    using sk by (metis (no_types, lifting) image_iff list.set_map option.distinct(1))
  have fo: "fsi_objs h1 = fsi_objs h @ map (\<lambda>f. new_fsi f s0) (frames db)"
    by (simp add: h1)
  have old: "map (fsi_key h1) (frame_slice_intersects db)
             = map (fsi_key h) (frame_slice_intersects db)"
    using valid by (simp add: fsi_key_append_old [OF _ fo])
  have new: "map (fsi_key h1) (fresh_ptrs (length (fsi_objs h)) (length (frames db)))
             = map (\<lambda>f. Some (f, s0)) (frames db)"
    using fsi_key_fresh_ptrs [OF fo] by (simp add: new_fsi_def comp_def)
  have keys: "map (fsi_key h1) (frame_slice_intersects db1)
              = map (fsi_key h) (frame_slice_intersects db) @ map (\<lambda>f. Some (f, s0)) (frames db)"
    by (simp add: db1_def old new)
  have dn: "distinct (map (\<lambda>f. Some (f, s0)) (frames db))"
    using df by (simp add: distinct_map inj_on_def)
  have disj: "set (map (fsi_key h) (frame_slice_intersects db))
              \<inter> set (map (\<lambda>f. Some (f, s0)) (frames db)) = {}"
    unfolding sk using fresh by auto
  have k1: "distinct (map (fsi_key h1) (frame_slice_intersects db1))"
    unfolding keys using dk dn disj by simp
  have k2: "set (map (fsi_key h1) (frame_slice_intersects db1))
            = Some ` (set (frames db1) \<times> set (slices db1))"
    unfolding keys set_append sk by (auto simp: db1_def)
  have f1: "distinct (frames db1)"
    using df by (simp add: db1_def)
  have s1: "distinct (slices db1)"
    using ds fresh by (simp add: db1_def)
  have vf1: "\<forall>f \<in> set (frames db1). deref (frame_objs h1) f \<noteq> None"
    using vf by (simp add: db1_def h1)
  have vs1: "\<forall>s \<in> set (slices db1). deref (slice_objs h1) s \<noteq> None"
    using vs by (auto simp: db1_def h1 s0_def deref_append_old)
  show ?thesis
    unfolding db_inv_def using d1 f1 s1 vf1 vs1 k1 k2 by blast
qed

lemma GetOrCreateFrame_db_inv:
  assumes inv: "db_inv h d"
  shows "\<exists>f h1. GetOrCreateFrame e h d name = Some (f, h1) \<and> db_inv h1 d"
proof -
  from inv obtain db where db: "deref (database_objs h) d = Some db"
    and vf: "\<forall>f \<in> set (frames db). deref (frame_objs h) f \<noteq> None"
    unfolding db_inv_def by blast
  from getFrame_loop_total [OF vf] obtain r0 where "getFrame_loop h (frames db) name = Some r0"
    by blast
  then have "\<exists>r. getFrame e h d name = Some r"
    by (simp add: getFrame_def db)
  then obtain r where r: "getFrame e h d name = Some r"
    by blast
  show ?thesis
  proof (cases r)
    case (Inr f)
    with r inv show ?thesis by (simp add: GetOrCreateFrame_def)
  next
    case (Inl err)
    obtain f h1 where a: "addFrame h d name = Some (f, h1)"
      by (simp add: addFrame_eq [OF db])
    from addFrame_db_inv [OF inv a] a r Inl show ?thesis
      by (simp add: GetOrCreateFrame_def)
  qed
qed

lemma GetOrCreateSlice_db_inv:
  assumes inv: "db_inv h d"
  shows "\<exists>s h1. GetOrCreateSlice h d slice_id = Some (s, h1) \<and> db_inv h1 d"
proof -
  from inv obtain db where db: "deref (database_objs h) d = Some db"
    and vs: "\<forall>s \<in> set (slices db). deref (slice_objs h) s \<noteq> None"
    unfolding db_inv_def by blast
  from getSlice_loop_total [OF vs] have "\<exists>r. getSlice h d slice_id = Some r"
    by (simp add: getSlice_def db)
  then obtain r where r: "getSlice h d slice_id = Some r"
    by blast
  show ?thesis
  proof (cases r)
    case (Inr s)
    with r inv show ?thesis by (simp add: GetOrCreateSlice_def)
  next
    case (Inl err)
    obtain s h1 where a: "addSlice h d slice_id = Some (s, h1)"
      by (simp add: addSlice_eq [OF db])
    from addSlice_db_inv [OF inv a] a r Inl show ?thesis
      by (simp add: GetOrCreateSlice_def)
  qed
qed

lemma run_calls_db_inv:
  "db_inv h d \<Longrightarrow> \<exists>h'. run_calls e h d calls = Some h' \<and> db_inv h' d"
proof (induction calls arbitrary: h)
  case Nil
  then show ?case by simp
next
  case (Cons c calls)
  show ?case
  proof (cases c)
    case (CallGetOrCreateFrame name)
    from GetOrCreateFrame_db_inv [OF Cons.prems, of e name]
    obtain f h1 where "GetOrCreateFrame e h d name = Some (f, h1)" "db_inv h1 d"
      by blast
    with Cons.IH [of h1] CallGetOrCreateFrame show ?thesis by simp
  next
    case (CallGetOrCreateSlice i)
    from GetOrCreateSlice_db_inv [OF Cons.prems, of i]
    obtain s h1 where "GetOrCreateSlice h d i = Some (s, h1)" "db_inv h1 d"
      by blast
    with Cons.IH [of h1] CallGetOrCreateSlice show ?thesis by simp
  qed
qed

text \<open>
  Claim C2. Starting from a new database (no frames, slices or intersects), after
  any sequence of \<open>GetOrCreateFrame\<close> and \<open>GetOrCreateSlice\<close> calls (so after each
  call of a longer sequence) no call has panicked and, for every frame and every
  slice in the database, \<open>GetFrameSliceIntersect\<close> succeeds and exactly one entry
  of the intersect list is for that pair. Frames and slices are compared as the code
  compares them, by pointer.
\<close>

theorem cross_product_invariant:
  assumes "deref (database_objs h) d =
             Some \<lparr>Name = n, frames = [], slices = [], frame_slice_intersects = []\<rparr>"
  shows "\<exists>h'. run_calls e h d calls = Some h' \<and> cross_product h' d"
proof -
  from assms have "db_inv h d"
    by (simp add: db_inv_def)
  from run_calls_db_inv [OF this] show ?thesis
    by (blast intro: db_inv_cross_product)
qed


theorem cross_product_invariant_witness:
  "\<exists>h' db. run_calls example_env
         (empty_heap\<lparr>database_objs :=
            [\<lparr>Name = ''d'', frames = [], slices = [], frame_slice_intersects = []\<rparr>]\<rparr>)
         (Ptr 0)
         [CallGetOrCreateFrame ''default'', CallGetOrCreateSlice 0, CallGetOrCreateFrame ''other'',
          CallGetOrCreateSlice 1, CallGetOrCreateFrame ''default'', CallGetOrCreateSlice 0]
       = Some h'
     \<and> cross_product h' (Ptr 0)
     \<and> deref (database_objs h') (Ptr 0) = Some db
     \<and> frames db = [Ptr 0, Ptr 1] \<and> slices db = [Ptr 0, Ptr 1]
     \<and> frame_slice_intersects db = [Ptr 0, Ptr 1, Ptr 2, Ptr 3]
     \<and> GetFrameSliceIntersect h' (Ptr 0) (Ptr 1) (Ptr 1) = Some (Inr (Ptr 3), h')"
proof -
  let ?start = "empty_heap\<lparr>database_objs :=
            [\<lparr>Name = ''d'', frames = [], slices = [], frame_slice_intersects = []\<rparr>]\<rparr>"
  let ?calls = "[CallGetOrCreateFrame ''default'', CallGetOrCreateSlice 0,
          CallGetOrCreateFrame ''other'', CallGetOrCreateSlice 1,
          CallGetOrCreateFrame ''default'', CallGetOrCreateSlice 0]"
  have d: "deref (database_objs ?start) (Ptr 0) =
             Some \<lparr>Name = ''d'', frames = [], slices = [], frame_slice_intersects = []\<rparr>"
    by (simp add: deref_def)
  from cross_product_invariant [OF d, of example_env ?calls]
  obtain h' where r: "run_calls example_env ?start (Ptr 0) ?calls = Some h'"
    and cp: "cross_product h' (Ptr 0)"
    by blast
  have ev: "\<exists>h' db. run_calls example_env ?start (Ptr 0) ?calls = Some h'
     \<and> deref (database_objs h') (Ptr 0) = Some db
     \<and> frames db = [Ptr 0, Ptr 1] \<and> slices db = [Ptr 0, Ptr 1]
     \<and> frame_slice_intersects db = [Ptr 0, Ptr 1, Ptr 2, Ptr 3]
     \<and> GetFrameSliceIntersect h' (Ptr 0) (Ptr 1) (Ptr 1) = Some (Inr (Ptr 3), h')"
    by (simp add: empty_heap_def GetOrCreateFrame_def getFrame_def IsValidFrame_def
          GetStringArrayDefault_def example_env_def deref_def addFrame_def new_def store_def
          GetOrCreateSlice_def getSlice_def addSlice_def AddFrameSliceIntersect_def
          GetFrameSliceIntersect_def)
  with r cp show ?thesis by auto
qed

subsection \<open>Frames outside the allow-list\<close>

lemma GetOrCreateFrame_invalid_eq:
  assumes "\<not> IsValidFrame e name" and "deref (database_objs h) d = Some db"
  shows "GetOrCreateFrame e h d name =
     Some (Ptr (length (frame_objs h)),
           h\<lparr>frame_objs := frame_objs h @ [\<lparr>Frame_name = name\<rparr>],
             fsi_objs := fsi_objs h @ map (new_fsi (Ptr (length (frame_objs h)))) (slices db),
             database_objs := store (database_objs h) d
               (db\<lparr>frames := frames db @ [Ptr (length (frame_objs h))],
                   frame_slice_intersects := frame_slice_intersects db
                    @ fresh_ptrs (length (fsi_objs h)) (length (slices db))\<rparr>)\<rparr>)"
  using assms by (simp add: GetOrCreateFrame_def getFrame_def addFrame_eq)

text \<open>
  Claim C10. For a name outside the allow-list, \<open>GetOrCreateFrame\<close> on a database
  allocates a new frame with that name at an address not in use, appends it to the
  frame list, and allocates one new FrameSliceIntersect for it per existing slice:
  \<open>getFrame\<close> rejects the name before it scans the frame list. A second call with
  the same name does the same again and returns a different frame, so the database
  then has two frames with one name.
\<close>

theorem GetOrCreateFrame_invalid_duplicates:
  assumes inv: "\<not> IsValidFrame e name" and d: "deref (database_objs h) d = Some db"
  shows "\<exists>f1 h1 db1 f2 h2 db2.
           GetOrCreateFrame e h d name = Some (f1, h1)
         \<and> deref (frame_objs h) f1 = None
         \<and> deref (frame_objs h1) f1 = Some \<lparr>Frame_name = name\<rparr>
         \<and> deref (database_objs h1) d = Some db1
         \<and> frames db1 = frames db @ [f1]
         \<and> frame_slice_intersects db1 =
             frame_slice_intersects db @ fresh_ptrs (length (fsi_objs h)) (length (slices db))
         \<and> fsi_objs h1 = fsi_objs h @ map (new_fsi f1) (slices db)
         \<and> GetOrCreateFrame e h1 d name = Some (f2, h2)
         \<and> f2 \<noteq> f1
         \<and> deref (frame_objs h1) f2 = None
         \<and> deref (frame_objs h2) f1 = Some \<lparr>Frame_name = name\<rparr>
         \<and> deref (frame_objs h2) f2 = Some \<lparr>Frame_name = name\<rparr>
         \<and> deref (database_objs h2) d = Some db2
         \<and> frames db2 = frames db @ [f1, f2]
         \<and> fsi_objs h2 = fsi_objs h1 @ map (new_fsi f2) (slices db)
         \<and> \<not> distinct (frame_names h2 db2)"
proof -
  let ?f1 = "Ptr (length (frame_objs h))"
  let ?db1 = "db\<lparr>frames := frames db @ [?f1],
                   frame_slice_intersects := frame_slice_intersects db
                    @ fresh_ptrs (length (fsi_objs h)) (length (slices db))\<rparr>"
  let ?h1 = "h\<lparr>frame_objs := frame_objs h @ [\<lparr>Frame_name = name\<rparr>],
             fsi_objs := fsi_objs h @ map (new_fsi ?f1) (slices db),
             database_objs := store (database_objs h) d ?db1\<rparr>"
  have c1: "GetOrCreateFrame e h d name = Some (?f1, ?h1)"
    by (rule GetOrCreateFrame_invalid_eq [OF inv d])
  have d1: "deref (database_objs ?h1) d = Some ?db1"
    using d by (simp add: deref_store_same)
  let ?f2 = "Ptr (length (frame_objs ?h1))"
  let ?db2 = "?db1\<lparr>frames := frames ?db1 @ [?f2],
                   frame_slice_intersects := frame_slice_intersects ?db1
                    @ fresh_ptrs (length (fsi_objs ?h1)) (length (slices ?db1))\<rparr>"
  let ?h2 = "?h1\<lparr>frame_objs := frame_objs ?h1 @ [\<lparr>Frame_name = name\<rparr>],
             fsi_objs := fsi_objs ?h1 @ map (new_fsi ?f2) (slices ?db1),
             database_objs := store (database_objs ?h1) d ?db2\<rparr>"
  have c2: "GetOrCreateFrame e ?h1 d name = Some (?f2, ?h2)"
    by (rule GetOrCreateFrame_invalid_eq [OF inv d1])
  have d2: "deref (database_objs ?h2) d = Some ?db2"
    using d by (simp add: deref_store_same)
  have n1: "deref (frame_objs ?h2) ?f1 = Some \<lparr>Frame_name = name\<rparr>"
    by (simp add: deref_def nth_append)
  have n2: "deref (frame_objs ?h2) ?f2 = Some \<lparr>Frame_name = name\<rparr>"
    by (simp add: deref_def nth_append)
  have nd: "\<not> distinct (frame_names ?h2 ?db2)"
    using n1 n2 by (simp add: frame_names_def)
  have p1: "deref (frame_objs h) ?f1 = None" by simp
  have p2: "deref (frame_objs ?h1) ?f1 = Some \<lparr>Frame_name = name\<rparr>" by simp
  have p3: "frames ?db1 = frames db @ [?f1]" by simp
  have p4: "frame_slice_intersects ?db1 =
             frame_slice_intersects db @ fresh_ptrs (length (fsi_objs h)) (length (slices db))"
    by simp
  have p5: "fsi_objs ?h1 = fsi_objs h @ map (new_fsi ?f1) (slices db)" by simp
  have p6: "?f2 \<noteq> ?f1" by simp
  have p7: "deref (frame_objs ?h1) ?f2 = None" by (simp add: deref_def)
  have p8: "frames ?db2 = frames db @ [?f1, ?f2]" by simp
  have p9: "fsi_objs ?h2 = fsi_objs ?h1 @ map (new_fsi ?f2) (slices db)" by simp
  show ?thesis
    apply (rule exI [of _ ?f1], rule exI [of _ ?h1], rule exI [of _ ?db1])
    apply (rule exI [of _ ?f2], rule exI [of _ ?h2], rule exI [of _ ?db2])
    apply (intro conjI)
    apply (rule c1 p1 p2 d1 p3 p4 p5 c2 p6 p7 n1 n2 d2 p8 p9 nd)+
    done
qed


theorem GetOrCreateFrame_invalid_duplicates_witness:
  "\<not> IsValidFrame example_env ''other''
   \<and> (\<exists>f1 h1 f2 h2 db2.
          GetOrCreateFrame example_env example_heap (Ptr 0) ''other'' = Some (f1, h1)
        \<and> GetOrCreateFrame example_env h1 (Ptr 0) ''other'' = Some (f2, h2)
        \<and> f2 \<noteq> f1
        \<and> deref (database_objs h2) (Ptr 0) = Some db2
        \<and> frames db2 = [Ptr 0, f1, f2]
        \<and> \<not> distinct (frame_names h2 db2))"
proof -
  have inv: "\<not> IsValidFrame example_env ''other''"
    by (simp add: IsValidFrame_def GetStringArrayDefault_def example_env_def)
  have d: "deref (database_objs example_heap) (Ptr 0) =
             Some \<lparr>Name = ''db'', frames = [Ptr 0], slices = [Ptr 0],
                   frame_slice_intersects = [Ptr 0]\<rparr>"
    by (simp add: example_heap_def deref_def)
  from GetOrCreateFrame_invalid_duplicates [OF inv d] inv
  show ?thesis by auto
qed

text \<open>
  Claim C1 says that \<open>GetOrCreateFrame\<close> fails with \<open>InvalidFrameError\<close> for a name
  outside the allow-list and creates no frame. The code on the example database, with
  nothing configured (allow-list \<^verbatim>\<open>["default"]\<close>) and the name \<^verbatim>\<open>other\<close>: the lookup
  \<open>getFrame\<close> fails with \<open>InvalidFrameError\<close>, and \<open>GetOrCreateFrame\<close> then returns a
  frame it has newly allocated and appended, with a new FrameSliceIntersect.
\<close>

theorem GetOrCreateFrame_other_creates:
  "\<not> IsValidFrame example_env ''other''
   \<and> getFrame example_env example_heap (Ptr 0) ''other'' = Some (Inl InvalidFrameError)
   \<and> (\<exists>h'. GetOrCreateFrame example_env example_heap (Ptr 0) ''other'' = Some (Ptr 1, h')
          \<and> deref (frame_objs example_heap) (Ptr 1) = None
          \<and> deref (frame_objs h') (Ptr 1) = Some \<lparr>Frame_name = ''other''\<rparr>
          \<and> map_option frames (deref (database_objs h') (Ptr 0)) = Some [Ptr 0, Ptr 1]
          \<and> GetFrameSliceIntersects h' (Ptr 0) = Some [Ptr 0, Ptr 1])"
proof -
  have inv: "\<not> IsValidFrame example_env ''other''"
    by (simp add: IsValidFrame_def GetStringArrayDefault_def example_env_def)
  have d: "deref (database_objs example_heap) (Ptr 0) =
             Some \<lparr>Name = ''db'', frames = [Ptr 0], slices = [Ptr 0],
                   frame_slice_intersects = [Ptr 0]\<rparr>"
    by (simp add: example_heap_def deref_def)
  have g: "getFrame example_env example_heap (Ptr 0) ''other'' = Some (Inl InvalidFrameError)"
    using inv by (simp add: getFrame_def)
  let ?db = "\<lparr>Name = ''db'', frames = [Ptr 0], slices = [Ptr 0],
               frame_slice_intersects = [Ptr 0]\<rparr>"
  let ?H = "example_heap\<lparr>frame_objs := frame_objs example_heap @ [\<lparr>Frame_name = ''other''\<rparr>],
             fsi_objs := fsi_objs example_heap @ map (new_fsi (Ptr 1)) (slices ?db),
             database_objs := store (database_objs example_heap) (Ptr 0)
               (?db\<lparr>frames := frames ?db @ [Ptr 1],
                   frame_slice_intersects := frame_slice_intersects ?db
                    @ fresh_ptrs 1 (length (slices ?db))\<rparr>)\<rparr>"
  have len: "length (frame_objs example_heap) = 1" "length (fsi_objs example_heap) = 1"
    by (simp_all add: example_heap_def)
  have c: "GetOrCreateFrame example_env example_heap (Ptr 0) ''other'' = Some (Ptr 1, ?H)"
    using GetOrCreateFrame_invalid_eq [OF inv d] by (simp add: len)
  have "deref (frame_objs example_heap) (Ptr 1) = None"
    and "deref (frame_objs ?H) (Ptr 1) = Some \<lparr>Frame_name = ''other''\<rparr>"
    and "map_option frames (deref (database_objs ?H) (Ptr 0)) = Some [Ptr 0, Ptr 1]"
    and "GetFrameSliceIntersects ?H (Ptr 0) = Some [Ptr 0, Ptr 1]"
    by (simp_all add: example_heap_def deref_def store_def fresh_ptrs_def
          GetFrameSliceIntersects_def)
  with inv g c show ?thesis by blast
qed

lemma getFrame_loop_not_registered:
  "\<forall>f \<in> set fs. \<exists>fr. deref (frame_objs h) f = Some fr \<and> Frame_name fr \<noteq> name \<Longrightarrow>
   getFrame_loop h fs name = Some (Inl FrameDoesNotExistError)"
  by (induction fs) auto

text \<open>
  Claim C3. On a database none of whose frames has the bitmap's frame type as its
  name, \<open>GetFragmentForBitmap\<close> does not panic: it returns the error
  \<open>FrameDoesNotExistError\<close> when the frame type is in the allow-list and
  \<open>InvalidFrameError\<close> when it is not, and the heap it returns holds the same
  clusters, databases, frames, slices, intersects, fragments and processes as before
  (only log lines are added).
\<close>

theorem GetFragmentForBitmap_missing_frame:
  assumes d: "deref (database_objs h) d = Some db"
    and nr: "\<forall>f \<in> set (frames db). \<exists>fr. deref (frame_objs h) f = Some fr
                \<and> Frame_name fr \<noteq> Bitmap_FrameType bitmap"
  shows "\<exists>err h'. GetFragmentForBitmap e h d slice' bitmap = Some (Inl err, h')
           \<and> err = (if IsValidFrame e (Bitmap_FrameType bitmap)
                     then FrameDoesNotExistError else InvalidFrameError)
           \<and> same_objects h h'"
proof -
  have "getFrame e h d (Bitmap_FrameType bitmap) =
          Some (Inl (if IsValidFrame e (Bitmap_FrameType bitmap)
                     then FrameDoesNotExistError else InvalidFrameError))"
    using d getFrame_loop_not_registered [OF nr] by (simp add: getFrame_def)
  then show ?thesis
    using d by (simp add: GetFragmentForBitmap_def same_objects_def Println_def)
qed

theorem GetFragmentForBitmap_missing_frame_witness:
  "(\<exists>h'. GetFragmentForBitmap example_env example_heap (Ptr 0) (Ptr 0)
             \<lparr>Bitmap_Id = 42, Bitmap_FrameType = ''other'', Bitmap_Filter = 0\<rparr>
           = Some (Inl InvalidFrameError, h') \<and> same_objects example_heap h')
   \<and> (\<exists>h'. GetFragmentForBitmap
             (example_env\<lparr>config := [''supported_frames'' \<mapsto> [''default'', ''brand'']]\<rparr>)
             example_heap (Ptr 0) (Ptr 0)
             \<lparr>Bitmap_Id = 42, Bitmap_FrameType = ''brand'', Bitmap_Filter = 0\<rparr>
           = Some (Inl FrameDoesNotExistError, h') \<and> same_objects example_heap h')"
proof -
  let ?db = "\<lparr>Name = ''db'', frames = [Ptr 0], slices = [Ptr 0],
               frame_slice_intersects = [Ptr 0]\<rparr>"
  let ?e2 = "example_env\<lparr>config := [''supported_frames'' \<mapsto> [''default'', ''brand'']]\<rparr>"
  have d: "deref (database_objs example_heap) (Ptr 0) = Some ?db"
    by (simp add: example_heap_def deref_def)
  have nr: "\<forall>f \<in> set (frames ?db). \<exists>fr. deref (frame_objs example_heap) f = Some fr
              \<and> Frame_name fr \<noteq> Bitmap_FrameType \<lparr>Bitmap_Id = 42, Bitmap_FrameType = n, Bitmap_Filter = 0\<rparr>"
    if "n \<noteq> ''default''" for n
    using that by (simp add: example_heap_def deref_def)
  have v1: "\<not> IsValidFrame example_env ''other''"
    by (simp add: IsValidFrame_def GetStringArrayDefault_def example_env_def)
  have v2: "IsValidFrame ?e2 ''brand''"
    by (simp add: IsValidFrame_def GetStringArrayDefault_def example_env_def)
  have n1: "''other'' \<noteq> ''default''" and n2: "''brand'' \<noteq> ''default''"
    by simp_all
  from GetFragmentForBitmap_missing_frame [OF d nr [OF n1], of example_env "Ptr 0"] v1
  have "\<exists>h'. GetFragmentForBitmap example_env example_heap (Ptr 0) (Ptr 0)
             \<lparr>Bitmap_Id = 42, Bitmap_FrameType = ''other'', Bitmap_Filter = 0\<rparr>
           = Some (Inl InvalidFrameError, h') \<and> same_objects example_heap h'"
    by auto
  moreover
  from GetFragmentForBitmap_missing_frame [OF d nr [OF n2], of ?e2 "Ptr 0"] v2
  have "\<exists>h'. GetFragmentForBitmap ?e2 example_heap (Ptr 0) (Ptr 0)
             \<lparr>Bitmap_Id = 42, Bitmap_FrameType = ''brand'', Bitmap_Filter = 0\<rparr>
           = Some (Inl FrameDoesNotExistError, h') \<and> same_objects example_heap h'"
    by auto
  ultimately show ?thesis by blast
qed

subsection \<open>The ring mirrors the fragment list\<close>

lemma members_consistent_Add [simp]:
  "members (consistent_Add e c elt) = insert elt (members c)"
  by (simp add: consistent_Add_def Let_def)

lemma NumberOfReplicas_consistent_Add [simp]:
  "NumberOfReplicas (consistent_Add e c elt) = NumberOfReplicas c"
  by (simp add: consistent_Add_def Let_def)

lemma AddFragment_eq:
  "deref (fsi_objs h) self = Some fs \<Longrightarrow> deref (fragment_objs h) fragment = Some fr \<Longrightarrow>
   AddFragment e h self fragment =
     Some (h\<lparr>fsi_objs := store (fsi_objs h) self
                (fs\<lparr>fragments := fragments fs @ [fragment],
                    hashring := consistent_Add e (hashring fs)
                                  (SUUID_to_Hex e (Fragment_id fr))\<rparr>)\<rparr>)"
  by (simp add: AddFragment_def)

lemma AddFragment_seq_mirror:
  assumes "deref (fsi_objs h) self = Some fs"
    and "\<forall>f \<in> set fl. deref (fragment_objs h) f \<noteq> None"
  shows "\<exists>h' fs'. AddFragment_seq e h self fl = Some h'
           \<and> fragment_objs h' = fragment_objs h
           \<and> deref (fsi_objs h') self = Some fs'
           \<and> fragments fs' = fragments fs @ fl
           \<and> Some ` members (hashring fs') =
               Some ` members (hashring fs) \<union> hex_id e h ` set fl
           \<and> NumberOfReplicas (hashring fs') = NumberOfReplicas (hashring fs)"
  using assms
proof (induction fl arbitrary: h fs)
  case Nil
  then show ?case by simp
next
  case (Cons f fl)
  from Cons.prems obtain fr where fr: "deref (fragment_objs h) f = Some fr"
    by auto
  let ?fs1 = "fs\<lparr>fragments := fragments fs @ [f],
                    hashring := consistent_Add e (hashring fs)
                                  (SUUID_to_Hex e (Fragment_id fr))\<rparr>"
  let ?h1 = "h\<lparr>fsi_objs := store (fsi_objs h) self ?fs1\<rparr>"
  have a: "AddFragment e h self f = Some ?h1"
    by (rule AddFragment_eq [OF Cons.prems(1) fr])
  have s1: "deref (fsi_objs ?h1) self = Some ?fs1"
    using Cons.prems(1) by (simp add: deref_store_same)
  have v1: "\<forall>f \<in> set fl. deref (fragment_objs ?h1) f \<noteq> None"
    using Cons.prems(2) by simp
  from Cons.IH [OF s1 v1] obtain h' fs' where
    r: "AddFragment_seq e ?h1 self fl = Some h'" "fragment_objs h' = fragment_objs ?h1"
       "deref (fsi_objs h') self = Some fs'" "fragments fs' = fragments ?fs1 @ fl"
       "Some ` members (hashring fs') = Some ` members (hashring ?fs1) \<union> hex_id e ?h1 ` set fl"
       "NumberOfReplicas (hashring fs') = NumberOfReplicas (hashring ?fs1)"
    by blast
  have hx: "hex_id e ?h1 = hex_id e h"
    by (simp add: hex_id_def fun_eq_iff)
  have hf: "hex_id e h f = Some (SUUID_to_Hex e (Fragment_id fr))"
    by (simp add: hex_id_def fr)
  show ?case
    using a r hx hf by auto
qed

text \<open>
  Claim C5. A FrameSliceIntersect is created by \<open>AddFrameSliceIntersect\<close>. After any
  sequence of \<open>AddFragment\<close> calls on it with pointers to fragments, no call panics,
  its fragment list is the list of the fragments added, the member set of its ring
  is exactly the set of the hex-encoded identifiers of these fragments, and the
  ring's \<open>NumberOfReplicas\<close> is 16.
\<close>

theorem AddFragment_ring_mirrors_fragments:
  assumes new: "AddFrameSliceIntersect h0 d frame slice' = Some (self, h)"
    and valid: "\<forall>f \<in> set fl. deref (fragment_objs h) f \<noteq> None"
  shows "\<exists>h' fs. AddFragment_seq e h self fl = Some h'
           \<and> deref (fsi_objs h') self = Some fs
           \<and> fragments fs = fl
           \<and> Some ` members (hashring fs) = hex_id e h' ` set (fragments fs)
           \<and> NumberOfReplicas (hashring fs) = 16"
proof -
  from new obtain db where db: "deref (database_objs h0) d = Some db"
    by (auto simp: AddFrameSliceIntersect_def split: option.splits)
  from new have self: "deref (fsi_objs h) self = Some (new_fsi frame slice')"
    by (auto simp: AddFrameSliceIntersect_eq [OF db])
  from AddFragment_seq_mirror [OF self valid, of e]
  obtain h' fs' where
    r: "AddFragment_seq e h self fl = Some h'" "fragment_objs h' = fragment_objs h"
       "deref (fsi_objs h') self = Some fs'" "fragments fs' = fragments (new_fsi frame slice') @ fl"
       "Some ` members (hashring fs') =
          Some ` members (hashring (new_fsi frame slice')) \<union> hex_id e h ` set fl"
       "NumberOfReplicas (hashring fs') = NumberOfReplicas (hashring (new_fsi frame slice'))"
    by blast
  have hx: "hex_id e h' = hex_id e h"
    using r(2) by (simp add: hex_id_def fun_eq_iff)
  show ?thesis
    using r hx by (simp add: new_fsi_def consistent_New_def)
qed

theorem AddFragment_ring_mirrors_fragments_witness:
  "\<exists>h' fs. AddFragment_seq example_env
               (example_heap\<lparr>fragment_objs :=
                   [\<lparr>Fragment_id = 10, Fragment_process = Null\<rparr>,
                    \<lparr>Fragment_id = 255, Fragment_process = Ptr 0\<rparr>]\<rparr>)
               (Ptr 0) [Ptr 1, Ptr 0] = Some h'
           \<and> deref (fsi_objs h') (Ptr 0) = Some fs
           \<and> fragments fs = [Ptr 1, Ptr 0]
           \<and> members (hashring fs) = {''a'', ''ff''}
           \<and> NumberOfReplicas (hashring fs) = 16"
proof -
  let ?start = "example_heap\<lparr>fragment_objs :=
                   [\<lparr>Fragment_id = 10, Fragment_process = Null\<rparr>,
                    \<lparr>Fragment_id = 255, Fragment_process = Ptr 0\<rparr>],
                fsi_objs := [],
                database_objs := [\<lparr>Name = ''db'', frames = [Ptr 0], slices = [Ptr 0],
                        frame_slice_intersects = []\<rparr>]\<rparr>"
  let ?h = "example_heap\<lparr>fragment_objs :=
                   [\<lparr>Fragment_id = 10, Fragment_process = Null\<rparr>,
                    \<lparr>Fragment_id = 255, Fragment_process = Ptr 0\<rparr>]\<rparr>"
  have new: "AddFrameSliceIntersect ?start (Ptr 0) (Ptr 0) (Ptr 0) = Some (Ptr 0, ?h)"
    by (simp add: AddFrameSliceIntersect_def example_heap_def deref_def new_def store_def
          new_fsi_def)
  have valid: "\<forall>f \<in> set [Ptr 1, Ptr 0]. deref (fragment_objs ?h) f \<noteq> None"
    by (simp add: deref_def)
  have hx: "hex_id example_env h' ` set [Ptr 1, Ptr 0] = Some ` {''a'', ''ff''}"
    if "fragment_objs h' = fragment_objs ?h" for h'
    using that
    by (simp add: hex_id_def deref_def example_env_def to_hex.simps hex_digit_def
          insert_commute)
  from AddFragment_ring_mirrors_fragments [OF new valid, of example_env]
  obtain h' fs where
    r: "AddFragment_seq example_env ?h (Ptr 0) [Ptr 1, Ptr 0] = Some h'"
       "deref (fsi_objs h') (Ptr 0) = Some fs" "fragments fs = [Ptr 1, Ptr 0]"
       "Some ` members (hashring fs) = hex_id example_env h' ` set (fragments fs)"
       "NumberOfReplicas (hashring fs) = 16"
    by blast
  have "fragment_objs h' = fragment_objs ?h"
    using AddFragment_seq_mirror [of ?h "Ptr 0" "new_fsi (Ptr 0) (Ptr 0)" "[Ptr 1, Ptr 0]" example_env]
      valid r(1)
    by (auto simp: example_heap_def deref_def)
  from hx [OF this] r show ?thesis
    by (auto simp: inj_image_eq_iff)
qed

subsection \<open>Routing with a single fragment\<close>

lemma map_of_fold_update:
  "map_of (fold (\<lambda>i. AList.update (f i) elt) js al) k =
     (if k \<in> f ` set js then Some elt else map_of al k)"
  by (induction js arbitrary: al) (auto simp: update_conv')

lemma fold_update_keys:
  "fst ` set (fold (\<lambda>i. AList.update (f i) elt) js al) = f ` set js \<union> fst ` set al"
  by (induction js arbitrary: al) (auto simp: dom_update)

lemma search_less: "sortedHashes c \<noteq> [] \<Longrightarrow> search c key < length (sortedHashes c)"
  by (simp add: search_def Let_def)

lemma consistent_Get_first_member:
  assumes empty: "circle c = []" and pos: "0 < NumberOfReplicas c"
  shows "consistent_Get e (consistent_Add e c elt) key = Some (Inr elt)"
proof -
  define f where "f = (\<lambda>i. hashKey e (eltKey elt i))"
  define js where "js = [0 ..< nat (NumberOfReplicas c)]"
  define circ where "circ = fold (\<lambda>i. AList.update (f i) elt) js []"
  define c' where "c' = consistent_Add e c elt"
  have js: "js \<noteq> []"
    using pos by (simp add: js_def)
  have circ: "circle c' = circ" and sh: "sortedHashes c' = sort (map fst circ)"
    by (simp_all add: c'_def consistent_Add_def Let_def circ_def f_def js_def empty)
  have keys: "fst ` set circ = f ` set js"
    by (simp add: circ_def fold_update_keys)
  have ne: "circ \<noteq> []"
    using keys js by auto
  have "length (sortedHashes c') = length circ"
    by (simp add: sh)
  with ne have ne': "sortedHashes c' \<noteq> []"
    by auto
  define i where "i = search c' (hashKey e key)"
  have i: "i < length (sortedHashes c')"
    unfolding i_def by (rule search_less [OF ne'])
  then have "sortedHashes c' ! i \<in> set (sortedHashes c')"
    by (rule nth_mem)
  then have "sortedHashes c' ! i \<in> f ` set js"
    using keys by (simp add: sh)
  then have "map_of circ (sortedHashes c' ! i) = Some elt"
    by (simp add: circ_def map_of_fold_update)
  then show ?thesis
    using i ne by (simp add: consistent_Get_def circ Let_def i_def flip: c'_def)
qed

lemma consistent_Get_single:
  "consistent_Get e (consistent_Add e (consistent_New\<lparr>NumberOfReplicas := 16\<rparr>) elt) key =
     Some (Inr elt)"
  by (rule consistent_Get_first_member) (simp_all add: consistent_New_def)

text \<open>
  Claim C4. On a new database (no frames, slices or intersects), with \<^verbatim>\<open>default\<close> in
  the allow-list and a codec that decodes the hex string of \<open>fragId1\<close> back to
  \<open>fragId1\<close>: \<open>GetOrCreateFrame\<close> of \<^verbatim>\<open>default\<close>, \<open>GetOrCreateSlice\<close> of 0 and
  \<open>GetOrCreateFragment\<close> of the frame, the slice and \<open>fragId1\<close> all return, and
  then \<open>GetFragmentForBitmap\<close> on the slice and a bitmap of frame type \<^verbatim>\<open>default\<close>
  succeeds and returns that fragment, whose identifier is \<open>fragId1\<close>, for every
  bitmap id (42 among them): the fragment is the only member of the ring.
\<close>

theorem single_fragment_routing:
  assumes d: "deref (database_objs h) d =
                Some \<lparr>Name = n, frames = [], slices = [], frame_slice_intersects = []\<rparr>"
    and valid: "IsValidFrame e ''default''"
    and codec: "Hex_to_SUUID e (SUUID_to_Hex e fragId1) = fragId1"
  shows "\<exists>frame h1 slice0 h2 fragment h3.
           GetOrCreateFrame e h d ''default'' = Some (frame, h1)
         \<and> GetOrCreateSlice h1 d 0 = Some (slice0, h2)
         \<and> GetOrCreateFragment e h2 d frame slice0 fragId1 = Some (fragment, h3)
         \<and> GetId h3 fragment = Some fragId1
         \<and> GetFragmentForBitmap e h3 d slice0
               \<lparr>Bitmap_Id = bid, Bitmap_FrameType = ''default'', Bitmap_Filter = flt\<rparr>
             = Some (Inr fragment, h3)"
proof -
  define db0 where
    "db0 = \<lparr>Name = n, frames = [], slices = [], frame_slice_intersects = []\<rparr>"
  have d0: "deref (database_objs h) d = Some db0"
    using d by (simp add: db0_def)
  \<comment> \<open>the frame\<close>
  define f where "f = Ptr (length (frame_objs h))"
  define db1 where
    "db1 = db0\<lparr>frames := frames db0 @ [f],
               frame_slice_intersects := frame_slice_intersects db0
                 @ fresh_ptrs (length (fsi_objs h)) (length (slices db0))\<rparr>"
  define h1 where
    "h1 = h\<lparr>frame_objs := frame_objs h @ [\<lparr>Frame_name = ''default''\<rparr>],
            fsi_objs := fsi_objs h @ map (new_fsi f) (slices db0),
            database_objs := store (database_objs h) d db1\<rparr>"
  have "getFrame e h d ''default'' = Some (Inl FrameDoesNotExistError)"
    using valid d0 by (simp add: getFrame_def db0_def)
  then have c1: "GetOrCreateFrame e h d ''default'' = Some (f, h1)"
    by (simp add: GetOrCreateFrame_def addFrame_eq [OF d0] h1_def db1_def f_def)
  have d1: "deref (database_objs h1) d = Some db1"
    using d0 by (simp add: h1_def deref_store_same)
  have db1: "frames db1 = [f]" "slices db1 = []" "frame_slice_intersects db1 = []"
    by (simp_all add: db1_def db0_def)
  have fr1: "deref (frame_objs h1) f = Some \<lparr>Frame_name = ''default''\<rparr>"
    by (simp add: h1_def f_def)
  \<comment> \<open>the slice\<close>
  define s where "s = Ptr (length (slice_objs h1))"
  define k where "k = Ptr (length (fsi_objs h1))"
  define db2 where
    "db2 = db1\<lparr>slices := slices db1 @ [s],
               frame_slice_intersects := frame_slice_intersects db1
                 @ fresh_ptrs (length (fsi_objs h1)) (length (frames db1))\<rparr>"
  define h2 where
    "h2 = h1\<lparr>slice_objs := slice_objs h1 @ [\<lparr>Slice_id = 0\<rparr>],
             fsi_objs := fsi_objs h1 @ map (\<lambda>f. new_fsi f s) (frames db1),
             database_objs := store (database_objs h1) d db2\<rparr>"
  have "getSlice h1 d 0 = Some (Inl SliceDoesNotExistError)"
    using d1 db1 by (simp add: getSlice_def)
  then have c2: "GetOrCreateSlice h1 d 0 = Some (s, h2)"
    by (simp add: GetOrCreateSlice_def addSlice_eq [OF d1] h2_def db2_def s_def)
  have d2: "deref (database_objs h2) d = Some db2"
    using d1 by (simp add: h2_def deref_store_same)
  have db2: "frames db2 = [f]" "frame_slice_intersects db2 = [k]"
    by (simp_all add: db2_def db1 fresh_ptrs_def k_def)
  have fsi2: "deref (fsi_objs h2) k = Some (new_fsi f s)"
    by (simp add: h2_def k_def db1)
  have fr2: "deref (frame_objs h2) f = Some \<lparr>Frame_name = ''default''\<rparr>"
    using fr1 by (simp add: h2_def)
  \<comment> \<open>the fragment\<close>
  define g where "g = Ptr (length (fragment_objs h2))"
  define fs3 where
    "fs3 = (new_fsi f s)\<lparr>fragments := fragments (new_fsi f s) @ [g],
             hashring := consistent_Add e (hashring (new_fsi f s)) (SUUID_to_Hex e fragId1)\<rparr>"
  define h2' where
    "h2' = h2\<lparr>fragment_objs := fragment_objs h2
                @ [\<lparr>Fragment_id = fragId1, Fragment_process = Null\<rparr>]\<rparr>"
  define h3 where "h3 = h2'\<lparr>fsi_objs := store (fsi_objs h2') k fs3\<rparr>"
  have gfsi2: "GetFrameSliceIntersect h2 d f s = Some (Inr k, h2)"
    by (simp add: GetFrameSliceIntersect_def d2 db2 fsi2 new_fsi_def)
  have "GetFragment h2 k fragId1 = Some (Inl FragmentDoesNotExistError)"
    by (simp add: GetFragment_def fsi2 new_fsi_def)
  with gfsi2 have gf: "getFragment h2 d f s fragId1 = Some (Inl FragmentDoesNotExistError, h2)"
    by (simp add: getFragment_def)
  have fsi2': "deref (fsi_objs h2') k = Some (new_fsi f s)"
    using fsi2 by (simp add: h2'_def)
  have g2': "deref (fragment_objs h2') g = Some \<lparr>Fragment_id = fragId1, Fragment_process = Null\<rparr>"
    by (simp add: h2'_def g_def)
  have "AddFragment e h2' k g = Some h3"
    by (simp add: AddFragment_eq [OF fsi2' g2'] h3_def fs3_def)
  with gfsi2 have "addFragment e h2 d f s fragId1 = Some (g, h3)"
    by (simp add: addFragment_def new_def g_def h2'_def)
  with gf have c3: "GetOrCreateFragment e h2 d f s fragId1 = Some (g, h3)"
    by (simp add: GetOrCreateFragment_def)
  \<comment> \<open>the lookup\<close>
  have d3: "deref (database_objs h3) d = Some db2"
    using d2 by (simp add: h3_def h2'_def)
  have fr3: "deref (frame_objs h3) f = Some \<lparr>Frame_name = ''default''\<rparr>"
    using fr2 by (simp add: h3_def h2'_def)
  have fsi3: "deref (fsi_objs h3) k = Some fs3"
    using fsi2' by (simp add: h3_def deref_store_same)
  have g3: "deref (fragment_objs h3) g = Some \<lparr>Fragment_id = fragId1, Fragment_process = Null\<rparr>"
    using g2' by (simp add: h3_def)
  have fs3: "fsi_frame fs3 = f" "fsi_slice fs3 = s" "fragments fs3 = [g]"
    "hashring fs3 =
       consistent_Add e (consistent_New\<lparr>NumberOfReplicas := 16\<rparr>) (SUUID_to_Hex e fragId1)"
    by (simp_all add: fs3_def new_fsi_def)
  have id3: "GetId h3 g = Some fragId1"
    by (simp add: GetId_def g3)
  have gfr3: "getFrame e h3 d ''default'' = Some (Inr f)"
    using valid by (simp add: getFrame_def d3 db2 fr3)
  have gfsi3: "GetFrameSliceIntersect h3 d f s = Some (Inr k, h3)"
    by (simp add: GetFrameSliceIntersect_def d3 db2 fsi3 fs3)
  have gfrag3: "GetFragment h3 k fragId1 = Some (Inr g)"
    by (simp add: GetFragment_def fsi3 fs3 g3)
  have c4: "GetFragmentForBitmap e h3 d s
               \<lparr>Bitmap_Id = bid, Bitmap_FrameType = ''default'', Bitmap_Filter = flt\<rparr>
             = Some (Inr g, h3)"
    by (simp add: GetFragmentForBitmap_def gfr3 gfsi3 fsi3 fs3 consistent_Get_single codec gfrag3)
  from c1 c2 c3 id3 c4 show ?thesis by blast
qed


theorem single_fragment_routing_witness:
  "\<exists>c hc d h frame h1 slice0 h2 fragment h3.
      NewCluster empty_heap = (c, hc)
    \<and> GetOrCreateDatabase hc c ''d'' = Some (d, h)
    \<and> GetOrCreateFrame example_env h d ''default'' = Some (frame, h1)
    \<and> GetOrCreateSlice h1 d 0 = Some (slice0, h2)
    \<and> GetOrCreateFragment example_env h2 d frame slice0 255 = Some (fragment, h3)
    \<and> GetId h3 fragment = Some 255
    \<and> GetFragmentForBitmap example_env h3 d slice0
          \<lparr>Bitmap_Id = 42, Bitmap_FrameType = ''default'', Bitmap_Filter = 0\<rparr>
        = Some (Inr fragment, h3)"
proof -
  obtain hc h where
    nc: "NewCluster empty_heap = (Ptr 0, hc)"
    and gd: "GetOrCreateDatabase hc (Ptr 0) ''d'' = Some (Ptr 0, h)"
    and d: "deref (database_objs h) (Ptr 0) =
              Some \<lparr>Name = ''d'', frames = [], slices = [], frame_slice_intersects = []\<rparr>"
    by (simp add: NewCluster_def empty_heap_def new_def GetOrCreateDatabase_def getDatabase_def
          addDatabase_def deref_def store_def)
  have valid: "IsValidFrame example_env ''default''"
    by (simp add: IsValidFrame_def GetStringArrayDefault_def example_env_def)
  have codec: "Hex_to_SUUID example_env (SUUID_to_Hex example_env 255) = 255"
    by (simp add: example_env_def to_hex.simps hex_digit_def from_hex_def hex_value_def)
  from single_fragment_routing [OF d valid codec, of 42 0] nc gd
  show ?thesis by blast
qed

subsection \<open>Routing is deterministic\<close>

lemma getFrame_loop_objs:
  "frame_objs h' = frame_objs h \<Longrightarrow> getFrame_loop h' ps name = getFrame_loop h ps name"
  by (induction ps) (simp_all split: option.splits)

lemma GetFrameSliceIntersect_loop_objs:
  "fsi_objs h' = fsi_objs h \<Longrightarrow>
   GetFrameSliceIntersect_loop h' ps frame slice' = GetFrameSliceIntersect_loop h ps frame slice'"
  by (induction ps) (simp_all split: option.splits)

lemma GetFragment_loop_objs:
  "fragment_objs h' = fragment_objs h \<Longrightarrow>
   GetFragment_loop h' ps fid = GetFragment_loop h ps fid"
  by (induction ps) (simp_all split: option.splits)

lemma GetFragmentForBitmap_same_objects:
  "GetFragmentForBitmap e h d slice' bitmap = Some (r, h1) \<Longrightarrow> same_objects h h1"
  by (auto simp: GetFragmentForBitmap_def GetFrameSliceIntersect_def same_objects_def Println_def
           split: option.splits sum.splits)

lemma GetFragmentForBitmap_outcome:
  assumes "same_objects h h'"
  shows "map_option fst (GetFragmentForBitmap e h' d slice' bitmap) =
         map_option fst (GetFragmentForBitmap e h d slice' bitmap)"
proof -
  from assms have eqs: "database_objs h' = database_objs h" "frame_objs h' = frame_objs h"
    "fsi_objs h' = fsi_objs h" "fragment_objs h' = fragment_objs h"
    by (simp_all add: same_objects_def)
  have l1: "getFrame_loop h' ps n = getFrame_loop h ps n" for ps n
    by (rule getFrame_loop_objs) (rule eqs)
  have l2: "GetFrameSliceIntersect_loop h' ps f s = GetFrameSliceIntersect_loop h ps f s" for ps f s
    by (rule GetFrameSliceIntersect_loop_objs) (rule eqs)
  have l3: "GetFragment_loop h' ps i = GetFragment_loop h ps i" for ps i
    by (rule GetFragment_loop_objs) (rule eqs)
  have g1: "getFrame e h' d n = getFrame e h d n" for n
    by (simp add: getFrame_def eqs l1 cong: option.case_cong)
  have g2: "map_option fst (GetFrameSliceIntersect h' d f s) =
            map_option fst (GetFrameSliceIntersect h d f s)" for f s
    by (simp add: GetFrameSliceIntersect_def eqs l2 split: option.splits sum.splits)
  have g2h: "GetFrameSliceIntersect h0 d f s = Some (r, h1) \<Longrightarrow>
             fsi_objs h1 = fsi_objs h0 \<and> fragment_objs h1 = fragment_objs h0
             \<and> database_objs h1 = database_objs h0" for h0 f s r h1
    by (auto simp: GetFrameSliceIntersect_def Println_def split: option.splits sum.splits)
  have g3: "GetFragment h1 p i = GetFragment h p i"
    if "fsi_objs h1 = fsi_objs h" "fragment_objs h1 = fragment_objs h" for h1 p i
    using that
    by (simp add: GetFragment_def GetFragment_loop_objs [of h1 h] cong: option.case_cong)
  show ?thesis
  proof (cases "getFrame e h d (Bitmap_FrameType bitmap)")
    case None
    then show ?thesis by (simp add: GetFragmentForBitmap_def g1)
  next
    case (Some a)
    show ?thesis
    proof (cases a)
      case (Inl err)
      with Some show ?thesis
        by (simp add: GetFragmentForBitmap_def g1 eqs split: option.splits)
    next
      case (Inr frame)
      show ?thesis
      proof (cases "GetFrameSliceIntersect h d frame slice'")
        case None
        with g2 [of frame slice'] have "GetFrameSliceIntersect h' d frame slice' = None"
          by simp
        with None Some Inr show ?thesis
          by (simp add: GetFragmentForBitmap_def g1)
      next
        case (Some b)
        obtain r h1 where b: "b = (r, h1)" by (cases b)
        from g2 [of frame slice'] Some b obtain h1' where
          b': "GetFrameSliceIntersect h' d frame slice' = Some (r, h1')"
          by auto
        note o1 = g2h [OF Some [unfolded b]]
        note o2 = g2h [OF b']
        have e1: "fsi_objs h1' = fsi_objs h1" "database_objs h1' = database_objs h1"
          using o1 o2 eqs by simp_all
        have e2: "GetFragment h1' p i = GetFragment h1 p i" for p i
          using o1 o2 eqs g3 [of h1 p i] g3 [of h1' p i] by simp
        show ?thesis
          using \<open>getFrame e h d (Bitmap_FrameType bitmap) = Some a\<close> Inr Some b b'
          by (simp add: GetFragmentForBitmap_def g1 e1 e2 split: option.splits sum.splits)
      qed
    qed
  qed
qed

lemma GetFragmentForBitmap_fields:
  "Bitmap_Id b' = Bitmap_Id b \<Longrightarrow> Bitmap_FrameType b' = Bitmap_FrameType b \<Longrightarrow>
   GetFragmentForBitmap e h d slice' b' = GetFragmentForBitmap e h d slice' b"
  by (simp add: GetFragmentForBitmap_def
        cong: option.case_cong sum.case_cong prod.case_cong)

text \<open>
  Claim C6. The outcome of \<open>GetFragmentForBitmap\<close> (the fragment or the error it
  returns, or the panic) is determined by the objects of the heap, the database, the
  slice, and the bitmap's id and frame type: on two heaps that hold the same objects
  and two bitmaps that agree on id and frame type the outcomes are equal. A call
  that returns leaves every object as it was (it only logs), and the same call on
  the heap it returns has the same outcome.
\<close>

theorem GetFragmentForBitmap_deterministic:
  assumes so: "same_objects h h'"
    and id: "Bitmap_Id b' = Bitmap_Id b"
    and ft: "Bitmap_FrameType b' = Bitmap_FrameType b"
  shows "map_option fst (GetFragmentForBitmap e h' d slice' b') =
         map_option fst (GetFragmentForBitmap e h d slice' b)
       \<and> (\<forall>r h1. GetFragmentForBitmap e h d slice' b = Some (r, h1) \<longrightarrow>
             same_objects h h1
           \<and> (\<exists>h2. GetFragmentForBitmap e h1 d slice' b = Some (r, h2)))"
proof (intro conjI allI impI)
  show "map_option fst (GetFragmentForBitmap e h' d slice' b') =
        map_option fst (GetFragmentForBitmap e h d slice' b)"
    using GetFragmentForBitmap_outcome [OF so] GetFragmentForBitmap_fields [OF id ft]
    by simp
next
  fix r h1
  assume a: "GetFragmentForBitmap e h d slice' b = Some (r, h1)"
  then show s1: "same_objects h h1"
    by (rule GetFragmentForBitmap_same_objects)
  from GetFragmentForBitmap_outcome [OF s1, of e d slice' b] a
  show "\<exists>h2. GetFragmentForBitmap e h1 d slice' b = Some (r, h2)"
    by auto
qed


theorem GetFragmentForBitmap_deterministic_witness:
  "\<exists>g h1 h2 h3.
      GetOrCreateFragment example_env example_heap (Ptr 0) (Ptr 0) (Ptr 0) 255 = Some (g, h1)
    \<and> GetFragmentForBitmap example_env h1 (Ptr 0) (Ptr 0)
          \<lparr>Bitmap_Id = 42, Bitmap_FrameType = ''default'', Bitmap_Filter = 0\<rparr>
        = Some (Inr g, h2)
    \<and> same_objects h1 h2
    \<and> GetFragmentForBitmap example_env h2 (Ptr 0) (Ptr 0)
          \<lparr>Bitmap_Id = 42, Bitmap_FrameType = ''default'', Bitmap_Filter = 7\<rparr>
        = Some (Inr g, h3)"
proof -
  define h1 where
    "h1 = example_heap
       \<lparr>fsi_objs :=
          [\<lparr>fsi_frame = Ptr 0, fsi_slice = Ptr 0, fragments = [Ptr 0],
            hashring = \<lparr>circle = [(24, ''ff''), (31, ''ff'')], members = {''ff''},
                        sortedHashes = [24, 31], NumberOfReplicas = 16, count = 1\<rparr>\<rparr>],
        fragment_objs := [\<lparr>Fragment_id = 255, Fragment_process = Null\<rparr>]\<rparr>"
  let ?b = "\<lparr>Bitmap_Id = 42, Bitmap_FrameType = ''default'', Bitmap_Filter = 0\<rparr>"
  let ?b' = "\<lparr>Bitmap_Id = 42, Bitmap_FrameType = ''default'', Bitmap_Filter = 7\<rparr>"
  have ring: "consistent_Add example_env (consistent_New\<lparr>NumberOfReplicas := 16\<rparr>) ''ff'' =
        \<lparr>circle = [(24, ''ff''), (31, ''ff'')], members = {''ff''},
         sortedHashes = [24, 31], NumberOfReplicas = 16, count = 1\<rparr>"
    by (simp add: consistent_Add_def consistent_New_def example_env_def eltKey_def
          decimal.simps digit_def upt_rec)
  have hex: "SUUID_to_Hex example_env 255 = ''ff''"
    by (simp add: example_env_def to_hex.simps hex_digit_def)
  have c: "GetOrCreateFragment example_env example_heap (Ptr 0) (Ptr 0) (Ptr 0) 255
             = Some (Ptr 0, h1)"
    by (simp add: GetOrCreateFragment_def getFragment_def GetFrameSliceIntersect_def
          example_heap_def deref_def new_fsi_def GetFragment_def addFragment_def new_def
          AddFragment_def store_def h1_def ring hex)
  have r: "GetFragmentForBitmap example_env h1 (Ptr 0) (Ptr 0) ?b = Some (Inr (Ptr 0), h1)"
    by (simp add: GetFragmentForBitmap_def getFrame_def IsValidFrame_def
          GetStringArrayDefault_def example_env_def h1_def example_heap_def deref_def
          GetFrameSliceIntersect_def new_fsi_def consistent_Get_def search_def
          decimal.simps digit_def from_hex_def hex_value_def GetFragment_def)
  have so: "same_objects h1 h1"
    by (simp add: same_objects_def)
  from GetFragmentForBitmap_deterministic [OF so, of ?b' ?b example_env "Ptr 0" "Ptr 0"] r
  obtain h3 where "GetFragmentForBitmap example_env h1 (Ptr 0) (Ptr 0) ?b' = Some (Inr (Ptr 0), h3)"
    by auto
  with c r so show ?thesis by blast
qed

subsection \<open>Fragments and their process\<close>

lemma AddFragment_fragment_objs:
  "AddFragment e h self fragment = Some h' \<Longrightarrow> fragment_objs h' = fragment_objs h"
  by (auto simp: AddFragment_def split: option.splits)

lemma GetFragment_loop_valid:
  "GetFragment_loop h ps fid = Some (Inr g) \<Longrightarrow>
   \<exists>fr. deref (fragment_objs h) g = Some fr \<and> Fragment_id fr = fid \<and> g \<in> set ps"
  by (induction ps) (auto split: option.splits if_splits)

lemma GetFrameSliceIntersect_log:
  "GetFrameSliceIntersect h d frame slice' = Some (r, h1) \<Longrightarrow>
   \<exists>l. h1 = h\<lparr>log_lines := l\<rparr>"
  by (auto simp: GetFrameSliceIntersect_def Println_def split: option.splits sum.splits
           intro: exI [of _ "log_lines h"])

lemma getFragment_found:
  "getFragment h d frame slice' fid = Some (Inr g, h1) \<Longrightarrow>
   \<exists>fr. deref (fragment_objs h) g = Some fr \<and> Fragment_id fr = fid"
  by (auto simp: getFragment_def GetFragment_def split: option.splits sum.splits
           dest!: GetFrameSliceIntersect_log GetFragment_loop_valid)

lemma getFragment_log:
  "getFragment h d frame slice' fid = Some (r, h1) \<Longrightarrow> \<exists>l. h1 = h\<lparr>log_lines := l\<rparr>"
  by (auto simp: getFragment_def Println_def split: option.splits sum.splits
           dest!: GetFrameSliceIntersect_log)

lemma addFragment_new:
  assumes "addFragment e h d frame slice' fid = Some (g, h1)" and "g \<noteq> Null"
  shows "g = Ptr (length (fragment_objs h))
       \<and> fragment_objs h1 = fragment_objs h @ [\<lparr>Fragment_id = fid, Fragment_process = Null\<rparr>]"
  using assms
  by (auto simp: addFragment_def new_def split: option.splits sum.splits
           dest!: GetFrameSliceIntersect_log AddFragment_fragment_objs)

lemma GetOrCreateFragment_new:
  assumes g: "GetOrCreateFragment e h d frame slice' fid = Some (g, h1)"
    and nn: "g \<noteq> Null" and fresh: "deref (fragment_objs h) g = None"
  shows "deref (fragment_objs h1) g = Some \<lparr>Fragment_id = fid, Fragment_process = Null\<rparr>"
proof (cases "getFragment h d frame slice' fid")
  case None
  with g show ?thesis by (simp add: GetOrCreateFragment_def)
next
  case (Some a)
  obtain r h0 where a: "a = (r, h0)" by (cases a)
  obtain l where h0: "h0 = h\<lparr>log_lines := l\<rparr>"
    using getFragment_log Some a by blast
  show ?thesis
  proof (cases r)
    case (Inr x)
    with Some a g have "x = g" by (simp add: GetOrCreateFragment_def)
    with getFragment_found Some a Inr fresh show ?thesis by fastforce
  next
    case (Inl err)
    with Some a g have "addFragment e h0 d frame slice' fid = Some (g, h1)"
      by (simp add: GetOrCreateFragment_def)
    from addFragment_new [OF this nn] show ?thesis
      by (simp add: h0)
  qed
qed

lemma GetOrCreateFrame_fragment_objs:
  assumes "GetOrCreateFrame e h d name = Some (f, h1)"
  shows "fragment_objs h1 = fragment_objs h"
proof (cases "deref (database_objs h) d")
  case None
  with assms show ?thesis
    by (auto simp: GetOrCreateFrame_def getFrame_def addFrame_def split: if_splits)
next
  case (Some db)
  with assms show ?thesis
    by (auto simp: GetOrCreateFrame_def addFrame_eq [OF Some] split: option.splits sum.splits)
qed

lemma GetOrCreateSlice_fragment_objs:
  assumes "GetOrCreateSlice h d slice_id = Some (s, h1)"
  shows "fragment_objs h1 = fragment_objs h"
proof (cases "deref (database_objs h) d")
  case None
  with assms show ?thesis
    by (auto simp: GetOrCreateSlice_def getSlice_def addSlice_def)
next
  case (Some db)
  with assms show ?thesis
    by (auto simp: GetOrCreateSlice_def addSlice_eq [OF Some] split: option.splits sum.splits)
qed

lemma addFragment_keeps:
  assumes "addFragment e h d frame slice' fid = Some (g, h1)"
    and "deref (fragment_objs h) f = Some fr"
  shows "deref (fragment_objs h1) f = Some fr"
  using assms
  by (auto simp: addFragment_def new_def Println_def deref_append_old
           split: option.splits sum.splits
           dest!: GetFrameSliceIntersect_log AddFragment_fragment_objs)

lemma GetOrCreateFragment_keeps:
  assumes g: "GetOrCreateFragment e h d frame slice' fid = Some (g, h1)"
    and f: "deref (fragment_objs h) f = Some fr"
  shows "deref (fragment_objs h1) f = Some fr"
proof (cases "getFragment h d frame slice' fid")
  case None
  with g show ?thesis by (simp add: GetOrCreateFragment_def)
next
  case (Some a)
  obtain r h0 where a: "a = (r, h0)" by (cases a)
  obtain l where h0: "h0 = h\<lparr>log_lines := l\<rparr>"
    using getFragment_log Some a by blast
  show ?thesis
  proof (cases r)
    case (Inr x)
    with Some a g f h0 show ?thesis by (auto simp: GetOrCreateFragment_def)
  next
    case (Inl err)
    with Some a g have "addFragment e h0 d frame slice' fid = Some (g, h1)"
      by (simp add: GetOrCreateFragment_def)
    from addFragment_keeps [OF this, of f fr] f show ?thesis
      by (simp add: h0)
  qed
qed

text \<open>
  Claim C9. For a fragment whose process pointer is \<^verbatim>\<open>nil\<close>, \<open>GetProcessId\<close> and
  \<open>GetLocation\<close> dereference it and panic (the result \<open>None\<close>). A fragment that
  \<open>GetOrCreateFragment\<close> creates (the returned pointer is not \<^verbatim>\<open>nil\<close> and was not
  allocated before the call) has the given identifier and a \<^verbatim>\<open>nil\<close> process, so both
  calls panic on it. After \<open>SetProcess\<close> with a pointer to a process both calls return:
  the process's identifier, and the location made of it and the fragment's identifier.
  No other operation assigns the process: \<open>GetOrCreateFrame\<close>, \<open>GetOrCreateSlice\<close>,
  \<open>GetOrCreateFragment\<close>, \<open>AddFragment\<close> and \<open>GetFragmentForBitmap\<close> leave every
  existing fragment as it is.
\<close>

theorem Fragment_unassigned_process_panics:
  "(deref (fragment_objs h) f = Some fr \<and> Fragment_process fr = Null \<longrightarrow>
      GetProcessId h f = None \<and> GetLocation h f = None)
   \<and> (GetOrCreateFragment e h0 d frame slice' fid = Some (g, h1) \<and> g \<noteq> Null
        \<and> deref (fragment_objs h0) g = None \<longrightarrow>
      GetId h1 g = Some fid \<and> GetProcess h1 g = Some Null
      \<and> GetProcessId h1 g = None \<and> GetLocation h1 g = None)
   \<and> (deref (fragment_objs h) f = Some fr \<and> deref (process_objs h) p = Some pr \<longrightarrow>
      (\<exists>h'. SetProcess h f p = Some h'
          \<and> GetProcessId h' f = Some (Process_id pr)
          \<and> GetLocation h' f = Some \<lparr>ProcessId = Process_id pr, FragmentId = Fragment_id fr\<rparr>))
   \<and> (deref (fragment_objs h) f = Some fr
        \<and> (GetOrCreateFrame e h da name = Some (x, h2)
           \<or> GetOrCreateSlice h da slice_id = Some (x, h2)
           \<or> GetOrCreateFragment e h da framea slicea fida = Some (x, h2)
           \<or> AddFragment e h selfa x = Some h2
           \<or> GetFragmentForBitmap e h da slicea bitmap = Some (r, h2)) \<longrightarrow>
      deref (fragment_objs h2) f = Some fr)"
proof (intro conjI impI)
  assume "deref (fragment_objs h) f = Some fr \<and> Fragment_process fr = Null"
  then show "GetProcessId h f = None" "GetLocation h f = None"
    by (simp_all add: GetProcessId_def GetLocation_def)
next
  assume a: "GetOrCreateFragment e h0 d frame slice' fid = Some (g, h1) \<and> g \<noteq> Null
        \<and> deref (fragment_objs h0) g = None"
  then have "deref (fragment_objs h1) g = Some \<lparr>Fragment_id = fid, Fragment_process = Null\<rparr>"
    by (blast intro: GetOrCreateFragment_new)
  then show "GetId h1 g = Some fid" "GetProcess h1 g = Some Null"
    "GetProcessId h1 g = None" "GetLocation h1 g = None"
    by (simp_all add: GetProcessId_def GetLocation_def GetId_def GetProcess_def)
next
  assume a: "deref (fragment_objs h) f = Some fr \<and> deref (process_objs h) p = Some pr"
  then show "\<exists>h'. SetProcess h f p = Some h'
          \<and> GetProcessId h' f = Some (Process_id pr)
          \<and> GetLocation h' f = Some \<lparr>ProcessId = Process_id pr, FragmentId = Fragment_id fr\<rparr>"
    by (simp add: SetProcess_def GetProcessId_def GetLocation_def deref_store_same)
next
  assume a: "deref (fragment_objs h) f = Some fr
        \<and> (GetOrCreateFrame e h da name = Some (x, h2)
           \<or> GetOrCreateSlice h da slice_id = Some (x, h2)
           \<or> GetOrCreateFragment e h da framea slicea fida = Some (x, h2)
           \<or> AddFragment e h selfa x = Some h2
           \<or> GetFragmentForBitmap e h da slicea bitmap = Some (r, h2))"
  then have f: "deref (fragment_objs h) f = Some fr"
    by simp
  from a consider
      (frame) "GetOrCreateFrame e h da name = Some (x, h2)"
    | (slice) "GetOrCreateSlice h da slice_id = Some (x, h2)"
    | (fragment) "GetOrCreateFragment e h da framea slicea fida = Some (x, h2)"
    | (add) "AddFragment e h selfa x = Some h2"
    | (route) "GetFragmentForBitmap e h da slicea bitmap = Some (r, h2)"
    by blast
  then show "deref (fragment_objs h2) f = Some fr"
  proof cases
    case frame
    then show ?thesis using f by (simp add: GetOrCreateFrame_fragment_objs)
  next
    case slice
    then show ?thesis using f by (simp add: GetOrCreateSlice_fragment_objs)
  next
    case fragment
    then show ?thesis using f by (rule GetOrCreateFragment_keeps)
  next
    case add
    then show ?thesis using f by (simp add: AddFragment_fragment_objs)
  next
    case route
    from GetFragmentForBitmap_same_objects [OF this] show ?thesis
      using f by (simp add: same_objects_def)
  qed
qed

theorem Fragment_unassigned_process_panics_witness:
  "\<exists>g h1 h2 s h3.
      GetOrCreateFragment example_env example_heap (Ptr 0) (Ptr 0) (Ptr 0) 255 = Some (g, h1)
    \<and> g \<noteq> Null \<and> deref (fragment_objs example_heap) g = None
    \<and> GetProcessId h1 g = None \<and> GetLocation h1 g = None
    \<and> SetProcess h1 g (Ptr 0) = Some h2
    \<and> GetProcessId h2 g = Some (Some 1)
    \<and> GetLocation h2 g = Some \<lparr>ProcessId = Some 1, FragmentId = 255\<rparr>
    \<and> GetOrCreateSlice h1 (Ptr 0) 5 = Some (s, h3)
    \<and> deref (fragment_objs h3) g = Some \<lparr>Fragment_id = 255, Fragment_process = Null\<rparr>"
proof -
  define h1 where
    "h1 = example_heap
       \<lparr>fsi_objs :=
          [\<lparr>fsi_frame = Ptr 0, fsi_slice = Ptr 0, fragments = [Ptr 0],
            hashring = \<lparr>circle = [(24, ''ff''), (31, ''ff'')], members = {''ff''},
                        sortedHashes = [24, 31], NumberOfReplicas = 16, count = 1\<rparr>\<rparr>],
        fragment_objs := [\<lparr>Fragment_id = 255, Fragment_process = Null\<rparr>]\<rparr>"
  let ?fr = "\<lparr>Fragment_id = 255, Fragment_process = Null\<rparr>"
  let ?pr = "\<lparr>Process_id = Some 1, host = ''node'', port_tcp = 1, port_http = 2\<rparr>"
  have ring: "consistent_Add example_env (consistent_New\<lparr>NumberOfReplicas := 16\<rparr>) ''ff'' =
        \<lparr>circle = [(24, ''ff''), (31, ''ff'')], members = {''ff''},
         sortedHashes = [24, 31], NumberOfReplicas = 16, count = 1\<rparr>"
    by (simp add: consistent_Add_def consistent_New_def example_env_def eltKey_def
          decimal.simps digit_def upt_rec)
  have hex: "SUUID_to_Hex example_env 255 = ''ff''"
    by (simp add: example_env_def to_hex.simps hex_digit_def)
  have g: "GetOrCreateFragment example_env example_heap (Ptr 0) (Ptr 0) (Ptr 0) 255
             = Some (Ptr 0, h1)"
    by (simp add: GetOrCreateFragment_def getFragment_def GetFrameSliceIntersect_def
          example_heap_def deref_def new_fsi_def GetFragment_def addFragment_def new_def
          AddFragment_def store_def h1_def ring hex)
  have fr: "deref (fragment_objs h1) (Ptr 0) = Some ?fr"
    and pr: "deref (process_objs h1) (Ptr 0) = Some ?pr"
    by (simp_all add: h1_def example_heap_def deref_def)
  have fresh: "deref (fragment_objs example_heap) (Ptr 0) = None"
    by (simp add: example_heap_def deref_def)
  have "\<exists>h3. GetOrCreateSlice h1 (Ptr 0) 5 = Some (Ptr 1, h3)"
    by (simp add: GetOrCreateSlice_def getSlice_def addSlice_def AddFrameSliceIntersect_def
          h1_def example_heap_def deref_def new_def store_def)
  then obtain h3 where sl: "GetOrCreateSlice h1 (Ptr 0) 5 = Some (Ptr 1, h3)"
    by blast
  from Fragment_unassigned_process_panics
         [where ?h0.0 = example_heap and e = example_env and d = "Ptr 0" and frame = "Ptr 0"
            and slice' = "Ptr 0" and fid = 255 and g = "Ptr 0" and ?h1.0 = h1
            and h = h1 and f = "Ptr 0" and fr = ?fr and p = "Ptr 0" and pr = ?pr
            and da = "Ptr 0" and slice_id = 5 and x = "Ptr 1" and ?h2.0 = h3]
       g fr pr fresh sl
  show ?thesis by auto
qed

subsection \<open>Slice derivation\<close>

lemma GetSlice_uint: "GetSlice profile_id = uint profile_id div 1048576"
proof -
  let ?q = "profile_id div (1048576 :: 64 word)"
  have q: "uint ?q = uint profile_id div 1048576"
    by (simp add: uint_div)
  have "uint profile_id < 2 ^ 64"
    using uint_bounded [of profile_id] by simp
  then have "uint ?q < 2 ^ 63"
    unfolding q by simp
  moreover have "- (2 ^ 63) \<le> uint ?q"
    by (rule order_trans [of _ 0]) simp_all
  ultimately have "signed_take_bit 63 (uint ?q) = uint ?q"
    by (rule signed_take_bit_int_eq_self [rotated])
  then have "sint ?q = uint ?q"
    by (simp add: sint_uint)
  then show ?thesis
    by (simp add: GetSlice_def SLICE_WIDTH_def q)
qed

text \<open>
  Claim C8. \<^verbatim>\<open>GetSlice\<close> (the spec's \<^verbatim>\<open>ComputeSliceId\<close>) is a function of the item
  id alone, equal to the floor division of the id by \<^verbatim>\<open>SLICE_WIDTH\<close> = 1048576; the
  ids 0 and 1048575 are in slice 0 and the id 1048576 is in slice 1.
\<close>

theorem GetSlice_floor_division:
  "GetSlice profile_id = uint profile_id div uint SLICE_WIDTH
   \<and> uint SLICE_WIDTH = 1048576
   \<and> GetSlice 0 = 0 \<and> GetSlice 1048575 = 0 \<and> GetSlice 1048576 = 1"
  by (simp add: GetSlice_uint SLICE_WIDTH_def)

end
